theory Spec2Isabelle
  imports Complex_Main
begin

section \<open>The biquad resonant filter of SoLoud (soloud\_biquadresonantfilter.cpp)\<close>

subsection \<open>Floating-point arithmetic\<close>

text \<open>
  The source computes in C \<^verbatim>\<open>float\<close> (and, for one expression, in \<^verbatim>\<open>double\<close>).
  Rounded arithmetic has none of the algebraic laws of the reals, so the model does not
  pick a number type: every function takes the arithmetic as a record of operations on a
  type \<open>'f\<close> of \<^verbatim>\<open>float\<close> values and a type \<open>'d\<close> of \<^verbatim>\<open>double\<close> values, and
  every theorem holds for all such records. Equality of \<open>'f\<close> values in HOL is identity
  of the stored value; the C comparison \<^verbatim>\<open>==\<close> is the operation \<open>feq\<close>.

  \<^item> \<open>fadd\<close>, \<open>fsub\<close>, \<open>fmul\<close>, \<open>fdiv\<close>, \<open>fneg\<close>: the operators \<^verbatim>\<open>+ - * /\<close> and unary
    minus on \<^verbatim>\<open>float\<close>;
  \<^item> \<open>feq\<close>, \<open>fle\<close>: the comparisons \<^verbatim>\<open>==\<close> and \<^verbatim>\<open><=\<close>;
  \<^item> \<open>fconst q\<close>: the \<^verbatim>\<open>float\<close> that the literal of value \<open>q\<close> denotes
    (\<^verbatim>\<open>0.5f\<close>, \<^verbatim>\<open>1.0f\<close>, \<^verbatim>\<open>2.0f\<close>, and the integer literals \<^verbatim>\<open>0\<close>, \<^verbatim>\<open>2\<close>,
    \<^verbatim>\<open>1000\<close>, \<^verbatim>\<open>44100\<close> converted to \<^verbatim>\<open>float\<close>);
  \<^item> \<open>fsin\<close>, \<open>fcos\<close>: \<^verbatim>\<open>(float)sin(omega)\<close> and \<^verbatim>\<open>(float)cos(omega)\<close> on a
    \<^verbatim>\<open>float\<close> argument;
  \<^item> \<open>f2d\<close>, \<open>d2f\<close>: the promotion to \<^verbatim>\<open>double\<close> and the cast \<^verbatim>\<open>(float)\<close>;
  \<^item> \<open>dmul\<close>, \<open>ddiv\<close>, \<open>dconst\<close>, \<open>dpi\<close>: \<^verbatim>\<open>*\<close> and \<^verbatim>\<open>/\<close> on \<^verbatim>\<open>double\<close>, a
    \<^verbatim>\<open>double\<close> literal, and the macro \<^verbatim>\<open>M_PI\<close>.
\<close>

record ('f, 'd) float_ops =
  fadd :: "'f \<Rightarrow> 'f \<Rightarrow> 'f"
  fsub :: "'f \<Rightarrow> 'f \<Rightarrow> 'f"
  fmul :: "'f \<Rightarrow> 'f \<Rightarrow> 'f"
  fdiv :: "'f \<Rightarrow> 'f \<Rightarrow> 'f"
  fneg :: "'f \<Rightarrow> 'f"
  feq :: "'f \<Rightarrow> 'f \<Rightarrow> bool"
  fle :: "'f \<Rightarrow> 'f \<Rightarrow> bool"
  fconst :: "rat \<Rightarrow> 'f"
  fsin :: "'f \<Rightarrow> 'f"
  fcos :: "'f \<Rightarrow> 'f"
  f2d :: "'f \<Rightarrow> 'd"
  d2f :: "'d \<Rightarrow> 'f"
  dmul :: "'d \<Rightarrow> 'd \<Rightarrow> 'd"
  ddiv :: "'d \<Rightarrow> 'd \<Rightarrow> 'd"
  dconst :: "rat \<Rightarrow> 'd"
  dpi :: "'d"

text \<open>
  The exact arithmetic of the reals is one such record. It is the arithmetic in which the
  theorems below are instantiated at concrete inputs.
\<close>

definition exact :: "(real, real) float_ops" where
  "exact = \<lparr>fadd = (+), fsub = (-), fmul = (*), fdiv = (/), fneg = uminus,
            feq = (=), fle = (\<le>), fconst = of_rat, fsin = sin, fcos = cos,
            f2d = id, d2f = id, dmul = (*), ddiv = (/), dconst = of_rat, dpi = pi\<rparr>"

subsection \<open>Enumerations of the filter class\<close>

text \<open>
  Modelled from the spec: the header soloud\_biquadresonantfilter.h, which declares the
  enumerators, is not part of the sources. The filter types are the enumeration
  \<open>{NONE, LOWPASS, HIGHPASS, BANDPASS}\<close> of section 3 of the specification, numbered in
  that order; the attribute identifiers are \<open>FREQUENCY=0, SAMPLERATE=1, RESONANCE=2\<close>
  of section 6. The fields holding a filter type are assigned from an \<^verbatim>\<open>int\<close> parameter
  in \<^verbatim>\<open>setParams\<close>, so they are integers and may hold a value outside the enumeration.
\<close>

definition NONE :: int where "NONE = 0"
definition LOWPASS :: int where "LOWPASS = 1"
definition HIGHPASS :: int where "HIGHPASS = 2"
definition BANDPASS :: int where "BANDPASS = 3"

definition FREQUENCY :: int where "FREQUENCY = 0"
definition SAMPLERATE :: int where "SAMPLERATE = 1"
definition RESONANCE :: int where "RESONANCE = 2"

subsection \<open>Data\<close>

text \<open>
  Modelled from the spec: the class \<^verbatim>\<open>Fader\<close> is declared and implemented outside the
  sources. Its fields are those of section 3 of the specification; the source reads and
  writes \<open>mActive\<close> only (\<open>0\<close> inactive, \<open>1\<close> ramp, \<open>2\<close> oscillation). Its methods
  \<^verbatim>\<open>get\<close>, \<^verbatim>\<open>set\<close> and \<^verbatim>\<open>setLFO\<close> are parameters \<open>fader_get\<close>, \<open>fader_set\<close>
  and \<open>fader_setLFO\<close> of the functions that call them: \<open>fader_get\<close> returns the
  value at a time together with the fader as the call leaves it, \<open>fader_set\<close> and
  \<open>fader_setLFO\<close> return the fader as the call leaves it.
\<close>

record 'f Fader =
  mActive :: int
  mFrom :: 'f
  mTo :: 'f
  mTime :: 'f
  mStartTime :: 'f

type_synonym 'f Fader_get = "'f Fader \<Rightarrow> 'f \<Rightarrow> 'f \<times> 'f Fader"
type_synonym 'f Fader_set = "'f \<Rightarrow> 'f \<Rightarrow> 'f \<Rightarrow> 'f \<Rightarrow> 'f Fader \<Rightarrow> 'f Fader"

text \<open>The template class \<^verbatim>\<open>BiquadResonantFilter\<close>.\<close>

record 'f BiquadResonantFilter =
  mFilterType :: int
  mSampleRate :: 'f
  mFrequency :: 'f
  mResonance :: 'f

text \<open>
  A two-element array \<^verbatim>\<open>float m[2]\<close> is a pair; \<open>at2\<close> reads and \<open>put2\<close> writes the
  element of index \<open>s\<close>. The source indexes these arrays with the channel number
  \<open>s\<close> of the loop \<^verbatim>\<open>for (s = 0; s < pitch; s++)\<close> only, where \<open>pitch\<close> is 1 or 2, so
  \<open>s\<close> is 0 or 1 at every access.
\<close>

type_synonym 'f array2 = "'f \<times> 'f"

definition at2 :: "'f array2 \<Rightarrow> int \<Rightarrow> 'f" where
  "at2 a s = (if s = 0 then fst a else snd a)"

definition put2 :: "'f array2 \<Rightarrow> int \<Rightarrow> 'f \<Rightarrow> 'f array2" where
  "put2 a s v = (if s = 0 then (v, snd a) else (fst a, v))"

text \<open>
  The class \<^verbatim>\<open>BiquadResonantFilterInstance\<close>. \<open>mParent\<close> is the address of the
  template, which the instance never dereferences after construction.
\<close>

record 'f BiquadResonantFilterInstance =
  mParent :: nat
  mFilterType :: int
  mSampleRate :: 'f
  mFrequency :: 'f
  mResonance :: 'f
  mActive :: int
  mDirty :: int
  mA0 :: 'f
  mA1 :: 'f
  mA2 :: 'f
  mB1 :: 'f
  mB2 :: 'f
  mX1 :: "'f array2"
  mX2 :: "'f array2"
  mY1 :: "'f array2"
  mY2 :: "'f array2"
  mFrequencyFader :: "'f Fader"
  mSampleRateFader :: "'f Fader"
  mResonanceFader :: "'f Fader"

subsection \<open>Coefficients\<close>

text \<open>\<^verbatim>\<open>BiquadResonantFilterInstance::calcBQRParams\<close> (lines 36 to 75).\<close>

definition calcBQRParams ::
  "('f, 'd) float_ops \<Rightarrow> 'f BiquadResonantFilterInstance \<Rightarrow> 'f BiquadResonantFilterInstance"
where
  "calcBQRParams ar t =
    (let t = t\<lparr>mDirty := 0\<rparr>;
         omega = d2f ar (ddiv ar (dmul ar (dmul ar (f2d ar (fconst ar 2)) (dpi ar))
                                           (f2d ar (mFrequency t)))
                                  (f2d ar (mSampleRate t)));
         sin_omega = fsin ar omega;
         cos_omega = fcos ar omega;
         alpha = fdiv ar sin_omega (fmul ar (fconst ar 2) (mResonance t));
         scalar = fdiv ar (fconst ar 1) (fadd ar (fconst ar 1) alpha);
         t = t\<lparr>mActive := 1\<rparr>
     in if mFilterType t = NONE then t\<lparr>mActive := 0\<rparr>
        else if mFilterType t = LOWPASS then
          (let t = t\<lparr>mA0 := fmul ar (fmul ar (fconst ar (1/2)) (fsub ar (fconst ar 1) cos_omega)) scalar\<rparr>;
               t = t\<lparr>mA1 := fmul ar (fsub ar (fconst ar 1) cos_omega) scalar\<rparr>;
               t = t\<lparr>mA2 := mA0 t\<rparr>;
               t = t\<lparr>mB1 := fmul ar (fmul ar (fneg ar (fconst ar 2)) cos_omega) scalar\<rparr>;
               t = t\<lparr>mB2 := fmul ar (fsub ar (fconst ar 1) alpha) scalar\<rparr>
           in t)
        else if mFilterType t = HIGHPASS then
          (let t = t\<lparr>mA0 := fmul ar (fmul ar (fconst ar (1/2)) (fadd ar (fconst ar 1) cos_omega)) scalar\<rparr>;
               t = t\<lparr>mA1 := fmul ar (fneg ar (fadd ar (fconst ar 1) cos_omega)) scalar\<rparr>;
               t = t\<lparr>mA2 := mA0 t\<rparr>;
               t = t\<lparr>mB1 := fmul ar (fmul ar (fneg ar (fconst ar 2)) cos_omega) scalar\<rparr>;
               t = t\<lparr>mB2 := fmul ar (fsub ar (fconst ar 1) alpha) scalar\<rparr>
           in t)
        else if mFilterType t = BANDPASS then
          (let t = t\<lparr>mA0 := fmul ar alpha scalar\<rparr>;
               t = t\<lparr>mA1 := fconst ar 0\<rparr>;
               t = t\<lparr>mA2 := fneg ar (mA0 t)\<rparr>;
               t = t\<lparr>mB1 := fmul ar (fmul ar (fneg ar (fconst ar 2)) cos_omega) scalar\<rparr>;
               t = t\<lparr>mB2 := fmul ar (fsub ar (fconst ar 1) alpha) scalar\<rparr>
           in t)
        else t)"

subsection \<open>Construction\<close>

text \<open>
  \<^verbatim>\<open>BiquadResonantFilter::setParams\<close> (lines 214 to 220) and the constructor of the
  template (lines 209 to 212), which runs on the storage \<open>raw\<close> of the new object.
\<close>

definition setParams ::
  "int \<Rightarrow> 'f \<Rightarrow> 'f \<Rightarrow> 'f \<Rightarrow> 'f BiquadResonantFilter \<Rightarrow> 'f BiquadResonantFilter"
where
  "setParams aType aSampleRate aFrequency aResonance p =
    (let p = p\<lparr>BiquadResonantFilter.mFilterType := aType\<rparr>;
         p = p\<lparr>BiquadResonantFilter.mSampleRate := aSampleRate\<rparr>;
         p = p\<lparr>BiquadResonantFilter.mFrequency := aFrequency\<rparr>;
         p = p\<lparr>BiquadResonantFilter.mResonance := aResonance\<rparr>
     in p)"

definition new_BiquadResonantFilter ::
  "('f, 'd) float_ops \<Rightarrow> 'f BiquadResonantFilter \<Rightarrow> 'f BiquadResonantFilter"
where
  "new_BiquadResonantFilter ar raw =
    setParams LOWPASS (fconst ar 44100) (fconst ar 1000) (fconst ar 2) raw"

text \<open>
  The constructor \<^verbatim>\<open>BiquadResonantFilterInstance::BiquadResonantFilterInstance\<close>
  (lines 78 to 88). It runs on the storage \<open>raw\<close> of the new object: a field that the
  constructor does not write keeps the value found there. The three faders are members,
  so they are default-constructed before the body runs; \<open>fader0\<close> is the
  default-constructed \<^verbatim>\<open>Fader\<close>. \<open>aParent\<close> is the address of the template and
  \<open>parent\<close> the template found there. The chained assignment of line 81 assigns from
  right to left, each element receiving the value of the element assigned before it.
\<close>

definition new_BiquadResonantFilterInstance ::
  "('f, 'd) float_ops \<Rightarrow> 'f Fader \<Rightarrow> 'f BiquadResonantFilterInstance \<Rightarrow>
   nat \<Rightarrow> 'f BiquadResonantFilter \<Rightarrow> 'f BiquadResonantFilterInstance"
where
  "new_BiquadResonantFilterInstance ar fader0 raw aParent parent =
    (let t = raw\<lparr>mFrequencyFader := fader0, mSampleRateFader := fader0,
                  mResonanceFader := fader0\<rparr>;
         t = t\<lparr>mParent := aParent\<rparr>;
         t = t\<lparr>mX2 := put2 (mX2 t) 1 (fconst ar 0)\<rparr>;
         t = t\<lparr>mX1 := put2 (mX1 t) 1 (at2 (mX2 t) 1)\<rparr>;
         t = t\<lparr>mY2 := put2 (mY2 t) 1 (at2 (mX1 t) 1)\<rparr>;
         t = t\<lparr>mY1 := put2 (mY1 t) 1 (at2 (mY2 t) 1)\<rparr>;
         t = t\<lparr>mX2 := put2 (mX2 t) 0 (at2 (mY1 t) 1)\<rparr>;
         t = t\<lparr>mX1 := put2 (mX1 t) 0 (at2 (mX2 t) 0)\<rparr>;
         t = t\<lparr>mY2 := put2 (mY2 t) 0 (at2 (mX1 t) 0)\<rparr>;
         t = t\<lparr>mY1 := put2 (mY1 t) 0 (at2 (mY2 t) 0)\<rparr>;
         t = t\<lparr>mFilterType := BiquadResonantFilter.mFilterType parent\<rparr>;
         t = t\<lparr>mSampleRate := BiquadResonantFilter.mSampleRate parent\<rparr>;
         t = t\<lparr>mResonance := BiquadResonantFilter.mResonance parent\<rparr>
     in calcBQRParams ar t)"

text \<open>
  \<^verbatim>\<open>BiquadResonantFilter::createInstance\<close> (lines 227 to 230): \<^verbatim>\<open>new\<close> obtains the
  storage \<open>raw\<close> and runs the constructor on it with the template's own address.
\<close>

definition createInstance ::
  "('f, 'd) float_ops \<Rightarrow> 'f Fader \<Rightarrow> 'f BiquadResonantFilterInstance \<Rightarrow>
   nat \<Rightarrow> 'f BiquadResonantFilter \<Rightarrow> 'f BiquadResonantFilterInstance"
where
  "createInstance ar fader0 raw this_addr this =
    new_BiquadResonantFilterInstance ar fader0 raw this_addr this"

subsection \<open>Processing\<close>

text \<open>
  \<^verbatim>\<open>BiquadResonantFilterInstance::filter\<close> (lines 90 to 147), in the order of the source.
  The buffer \<^verbatim>\<open>float *aBuffer\<close> is the memory that the pointer addresses: a function
  from the index to the value stored there. The function receives no length of the
  buffer and checks none. Indices and counters are unbounded integers; the source
  computes them in \<^verbatim>\<open>int\<close>, where \<^verbatim>\<open>i * pitch + s\<close> stays in range for every sample
  count below \<open>2^30\<close>.

  Lines 98 to 114: the three faders, frequency first, then resonance, then sample rate.
\<close>

definition read_faders ::
  "'f Fader_get \<Rightarrow> 'f \<Rightarrow> 'f BiquadResonantFilterInstance \<Rightarrow> 'f BiquadResonantFilterInstance"
where
  "read_faders fader_get aTime t =
    (let t = (if Fader.mActive (mFrequencyFader t) > 0 then
                (let t = t\<lparr>mDirty := 1\<rparr>;
                     (v, fd) = fader_get (mFrequencyFader t) aTime
                 in t\<lparr>mFrequencyFader := fd, mFrequency := v\<rparr>)
              else t);
         t = (if Fader.mActive (mResonanceFader t) > 0 then
                (let t = t\<lparr>mDirty := 1\<rparr>;
                     (v, fd) = fader_get (mResonanceFader t) aTime
                 in t\<lparr>mResonanceFader := fd, mResonance := v\<rparr>)
              else t);
         t = (if Fader.mActive (mSampleRateFader t) > 0 then
                (let t = t\<lparr>mDirty := 1\<rparr>;
                     (v, fd) = fader_get (mSampleRateFader t) aTime
                 in t\<lparr>mSampleRateFader := fd, mSampleRate := v\<rparr>)
              else t)
     in t)"

text \<open>Lines 116 to 119.\<close>

definition recalc_if_dirty ::
  "('f, 'd) float_ops \<Rightarrow> 'f BiquadResonantFilterInstance \<Rightarrow> 'f BiquadResonantFilterInstance"
where
  "recalc_if_dirty ar t = (if mDirty t \<noteq> 0 then calcBQRParams ar t else t)"

text \<open>Lines 127 to 140: the body of the inner loop, which filters two samples.\<close>

definition sample_pair ::
  "('f, 'd) float_ops \<Rightarrow> int \<Rightarrow> int \<Rightarrow> int \<Rightarrow>
   'f BiquadResonantFilterInstance \<times> (int \<Rightarrow> 'f) \<Rightarrow>
   'f BiquadResonantFilterInstance \<times> (int \<Rightarrow> 'f)"
where
  "sample_pair ar pitch s i tb =
    (let t = fst tb; aBuffer = snd tb;
         x = aBuffer (i * pitch + s);
         t = t\<lparr>mY2 := put2 (mY2 t) s
               (fsub ar (fsub ar (fadd ar (fadd ar (fmul ar (mA0 t) x)
                                                   (fmul ar (mA1 t) (at2 (mX1 t) s)))
                                          (fmul ar (mA2 t) (at2 (mX2 t) s)))
                                 (fmul ar (mB1 t) (at2 (mY1 t) s)))
                        (fmul ar (mB2 t) (at2 (mY2 t) s)))\<rparr>;
         aBuffer = aBuffer(i * pitch + s := at2 (mY2 t) s);
         t = t\<lparr>mX2 := put2 (mX2 t) s (aBuffer ((i + 1) * pitch + s))\<rparr>;
         t = t\<lparr>mY1 := put2 (mY1 t) s
               (fsub ar (fsub ar (fadd ar (fadd ar (fmul ar (mA0 t) (at2 (mX2 t) s))
                                                   (fmul ar (mA1 t) x))
                                          (fmul ar (mA2 t) (at2 (mX1 t) s)))
                                 (fmul ar (mB1 t) (at2 (mY2 t) s)))
                        (fmul ar (mB2 t) (at2 (mY1 t) s)))\<rparr>;
         aBuffer = aBuffer((i + 1) * pitch + s := at2 (mY1 t) s);
         t = t\<lparr>mX1 := put2 (mX1 t) s (at2 (mX2 t) s)\<rparr>;
         t = t\<lparr>mX2 := put2 (mX2 t) s x\<rparr>
     in (t, aBuffer))"

text \<open>Lines 125 to 141: \<^verbatim>\<open>for (i = 0; i < aSamples; i += 2)\<close>, entered at \<open>i\<close>.\<close>

function sample_loop ::
  "('f, 'd) float_ops \<Rightarrow> int \<Rightarrow> int \<Rightarrow> int \<Rightarrow> int \<Rightarrow>
   'f BiquadResonantFilterInstance \<times> (int \<Rightarrow> 'f) \<Rightarrow>
   'f BiquadResonantFilterInstance \<times> (int \<Rightarrow> 'f)"
where
  "sample_loop ar pitch s aSamples i tb =
    (if i < aSamples then sample_loop ar pitch s aSamples (i + 2) (sample_pair ar pitch s i tb)
     else tb)"
  by pat_completeness auto
termination
  by (relation "measure (\<lambda>(ar, pitch, s, aSamples, i, tb). nat (aSamples - i))") auto

declare sample_loop.simps [simp del]

text \<open>
  Line 145: \<^verbatim>\<open>mY1[s] += (float) 1.0E-26\<close>; \<open>impulse\<close> is the constant
  \<^verbatim>\<open>(float) 1.0E-26\<close>.
\<close>

definition impulse :: "('f, 'd) float_ops \<Rightarrow> 'f" where
  "impulse ar = d2f ar (dconst ar (1 / 10 ^ 26))"

definition add_impulse ::
  "('f, 'd) float_ops \<Rightarrow> int \<Rightarrow> 'f BiquadResonantFilterInstance \<Rightarrow> 'f BiquadResonantFilterInstance"
where
  "add_impulse ar s t = t\<lparr>mY1 := put2 (mY1 t) s (fadd ar (at2 (mY1 t) s) (impulse ar))\<rparr>"

text \<open>Lines 123 to 146: \<^verbatim>\<open>for (s = 0; s < pitch; s++)\<close>, entered at \<open>s\<close>.\<close>

function channel_loop ::
  "('f, 'd) float_ops \<Rightarrow> int \<Rightarrow> int \<Rightarrow> int \<Rightarrow>
   'f BiquadResonantFilterInstance \<times> (int \<Rightarrow> 'f) \<Rightarrow>
   'f BiquadResonantFilterInstance \<times> (int \<Rightarrow> 'f)"
where
  "channel_loop ar pitch aSamples s tb =
    (if s < pitch then
       (let tb = sample_loop ar pitch s aSamples 0 tb;
            tb = (add_impulse ar s (fst tb), snd tb)
        in channel_loop ar pitch aSamples (s + 1) tb)
     else tb)"
  by pat_completeness auto
termination
  by (relation "measure (\<lambda>(ar, pitch, aSamples, s, tb). nat (pitch - s))") auto

declare channel_loop.simps [simp del]

text \<open>
  The whole of \<^verbatim>\<open>filter\<close>. It returns the instance and the buffer as the call leaves
  them. The parameter \<^verbatim>\<open>aSamplerate\<close> is not used by the source.
\<close>

definition filter_inst ::
  "('f, 'd) float_ops \<Rightarrow> 'f Fader_get \<Rightarrow> (int \<Rightarrow> 'f) \<Rightarrow> int \<Rightarrow> int \<Rightarrow> 'f \<Rightarrow> 'f \<Rightarrow>
   'f BiquadResonantFilterInstance \<Rightarrow> 'f BiquadResonantFilterInstance \<times> (int \<Rightarrow> 'f)"
where
  "filter_inst ar fader_get aBuffer aSamples aStereo aSamplerate aTime t =
    (if mActive t = 0 then (t, aBuffer)
     else
       (let t = read_faders fader_get aTime t;
            t = recalc_if_dirty ar t;
            pitch = (if aStereo \<noteq> 0 then 2 else 1)
        in channel_loop ar pitch aSamples 0 (t, aBuffer)))"

subsection \<open>Parameter dispatch\<close>

text \<open>\<^verbatim>\<open>BiquadResonantFilterInstance::setFilterParameter\<close> (lines 149 to 169).\<close>

definition setFilterParameter ::
  "int \<Rightarrow> 'f \<Rightarrow> 'f BiquadResonantFilterInstance \<Rightarrow> 'f BiquadResonantFilterInstance"
where
  "setFilterParameter aAttributeId aValue t =
    (if aAttributeId = FREQUENCY then
       (let t = t\<lparr>mDirty := 1\<rparr>;
            t = t\<lparr>mFrequencyFader := (mFrequencyFader t)\<lparr>Fader.mActive := 0\<rparr>\<rparr>;
            t = t\<lparr>mFrequency := aValue\<rparr>
        in t)
     else if aAttributeId = SAMPLERATE then
       (let t = t\<lparr>mDirty := 1\<rparr>;
            t = t\<lparr>mSampleRateFader := (mSampleRateFader t)\<lparr>Fader.mActive := 0\<rparr>\<rparr>;
            t = t\<lparr>mSampleRate := aValue\<rparr>
        in t)
     else if aAttributeId = RESONANCE then
       (let t = t\<lparr>mDirty := 1\<rparr>;
            t = t\<lparr>mResonanceFader := (mResonanceFader t)\<lparr>Fader.mActive := 0\<rparr>\<rparr>;
            t = t\<lparr>mResonance := aValue\<rparr>
        in t)
     else t)"

text \<open>
  \<^verbatim>\<open>BiquadResonantFilterInstance::fadeFilterParameter\<close> (lines 171 to 186); \<open>fader_set\<close> is
  the method \<^verbatim>\<open>Fader::set\<close>.
\<close>

definition fadeFilterParameter ::
  "('f, 'd) float_ops \<Rightarrow> 'f Fader_set \<Rightarrow> int \<Rightarrow> 'f \<Rightarrow> 'f \<Rightarrow> 'f \<Rightarrow> 'f \<Rightarrow>
   'f BiquadResonantFilterInstance \<Rightarrow> 'f BiquadResonantFilterInstance"
where
  "fadeFilterParameter ar fader_set aAttributeId aFrom aTo aTime aStartTime t =
    (if feq ar aFrom aTo \<or> fle ar aTime (fconst ar 0) then t
     else if aAttributeId = FREQUENCY then
       t\<lparr>mFrequencyFader := fader_set aFrom aTo aTime aStartTime (mFrequencyFader t)\<rparr>
     else if aAttributeId = SAMPLERATE then
       t\<lparr>mSampleRateFader := fader_set aFrom aTo aTime aStartTime (mSampleRateFader t)\<rparr>
     else if aAttributeId = RESONANCE then
       t\<lparr>mResonanceFader := fader_set aFrom aTo aTime aStartTime (mResonanceFader t)\<rparr>
     else t)"

text \<open>
  \<^verbatim>\<open>BiquadResonantFilterInstance::oscillateFilterParameter\<close> (lines 188 to 203);
  \<open>fader_setLFO\<close> is the method \<^verbatim>\<open>Fader::setLFO\<close>.
\<close>

definition oscillateFilterParameter ::
  "('f, 'd) float_ops \<Rightarrow> 'f Fader_set \<Rightarrow> int \<Rightarrow> 'f \<Rightarrow> 'f \<Rightarrow> 'f \<Rightarrow> 'f \<Rightarrow>
   'f BiquadResonantFilterInstance \<Rightarrow> 'f BiquadResonantFilterInstance"
where
  "oscillateFilterParameter ar fader_setLFO aAttributeId aFrom aTo aTime aStartTime t =
    (if feq ar aFrom aTo \<or> fle ar aTime (fconst ar 0) then t
     else if aAttributeId = FREQUENCY then
       t\<lparr>mFrequencyFader := fader_setLFO aFrom aTo aTime aStartTime (mFrequencyFader t)\<rparr>
     else if aAttributeId = SAMPLERATE then
       t\<lparr>mSampleRateFader := fader_setLFO aFrom aTo aTime aStartTime (mSampleRateFader t)\<rparr>
     else if aAttributeId = RESONANCE then
       t\<lparr>mResonanceFader := fader_setLFO aFrom aTo aTime aStartTime (mResonanceFader t)\<rparr>
     else t)"

subsection \<open>The specification's formulas\<close>

text \<open>
  Section 4.1 of the specification: \<open>omega = 2\<cdot>\<pi>\<cdot>frequency / sampleRate\<close>,
  \<open>alpha = sin(omega) / (2\<cdot>resonance)\<close>, \<open>scalar = 1 / (1 + alpha)\<close>, and the five
  coefficients \<open>(a0, a1, a2, b1, b2)\<close> of each of the types LOWPASS, HIGHPASS and
  BANDPASS. The specification gives no coefficients for any other type.
\<close>

definition spec_omega :: "('f, 'd) float_ops \<Rightarrow> 'f \<Rightarrow> 'f \<Rightarrow> 'f" where
  "spec_omega ar sampleRate frequency =
    d2f ar (ddiv ar (dmul ar (dmul ar (f2d ar (fconst ar 2)) (dpi ar)) (f2d ar frequency))
                    (f2d ar sampleRate))"

definition spec_alpha :: "('f, 'd) float_ops \<Rightarrow> 'f \<Rightarrow> 'f \<Rightarrow> 'f" where
  "spec_alpha ar omega resonance = fdiv ar (fsin ar omega) (fmul ar (fconst ar 2) resonance)"

definition spec_scalar :: "('f, 'd) float_ops \<Rightarrow> 'f \<Rightarrow> 'f" where
  "spec_scalar ar alpha = fdiv ar (fconst ar 1) (fadd ar (fconst ar 1) alpha)"

definition spec_coefficients ::
  "('f, 'd) float_ops \<Rightarrow> int \<Rightarrow> 'f \<Rightarrow> 'f \<Rightarrow> 'f \<Rightarrow> ('f \<times> 'f \<times> 'f \<times> 'f \<times> 'f) option"
where
  "spec_coefficients ar type sampleRate frequency resonance =
    (let omega = spec_omega ar sampleRate frequency;
         cosOmega = fcos ar omega;
         alpha = spec_alpha ar omega resonance;
         scalar = spec_scalar ar alpha;
         b1 = fmul ar (fmul ar (fneg ar (fconst ar 2)) cosOmega) scalar;
         b2 = fmul ar (fsub ar (fconst ar 1) alpha) scalar
     in if type = LOWPASS then
          (let a0 = fmul ar (fmul ar (fconst ar (1/2)) (fsub ar (fconst ar 1) cosOmega)) scalar
           in Some (a0, fmul ar (fsub ar (fconst ar 1) cosOmega) scalar, a0, b1, b2))
        else if type = HIGHPASS then
          (let a0 = fmul ar (fmul ar (fconst ar (1/2)) (fadd ar (fconst ar 1) cosOmega)) scalar
           in Some (a0, fmul ar (fneg ar (fadd ar (fconst ar 1) cosOmega)) scalar, a0, b1, b2))
        else if type = BANDPASS then
          (let a0 = fmul ar alpha scalar
           in Some (a0, fconst ar 0, fneg ar a0, b1, b2))
        else None)"

definition coefficients :: "'f BiquadResonantFilterInstance \<Rightarrow> 'f \<times> 'f \<times> 'f \<times> 'f \<times> 'f" where
  "coefficients t = (mA0 t, mA1 t, mA2 t, mB1 t, mB2 t)"

text \<open>
  The invariant of section 3: whenever the dirty flag is false, the stored coefficients
  are the ones that section 4.1 gives for the current type, sample rate, frequency and
  resonance.
\<close>

definition consistent :: "('f, 'd) float_ops \<Rightarrow> 'f BiquadResonantFilterInstance \<Rightarrow> bool" where
  "consistent ar t =
    (mDirty t = 0 \<longrightarrow>
      (case spec_coefficients ar (mFilterType t) (mSampleRate t) (mFrequency t) (mResonance t) of
         None \<Rightarrow> True
       | Some c \<Rightarrow> coefficients t = c))"

text \<open>
  The direct-form recurrence
  \<open>y[n] = a0\<cdot>x[n] + a1\<cdot>x[n-1] + a2\<cdot>x[n-2] - b1\<cdot>y[n-1] - b2\<cdot>y[n-2]\<close>, one sample at a
  time on channel \<open>s\<close> of the interleaved buffer: sample \<open>i\<close> is read, its output is
  written in its place, and the history of the channel moves on by one sample
  (\<open>x2 := x1, x1 := x, y2 := y1, y1 := y\<close>).
\<close>

definition direct_form_step ::
  "('f, 'd) float_ops \<Rightarrow> int \<Rightarrow> int \<Rightarrow> int \<Rightarrow>
   'f BiquadResonantFilterInstance \<times> (int \<Rightarrow> 'f) \<Rightarrow>
   'f BiquadResonantFilterInstance \<times> (int \<Rightarrow> 'f)"
where
  "direct_form_step ar pitch s i tb =
    (let t = fst tb; buffer = snd tb;
         x = buffer (i * pitch + s);
         x1 = at2 (mX1 t) s; x2 = at2 (mX2 t) s;
         y1 = at2 (mY1 t) s; y2 = at2 (mY2 t) s;
         y = fsub ar (fsub ar (fadd ar (fadd ar (fmul ar (mA0 t) x) (fmul ar (mA1 t) x1))
                                       (fmul ar (mA2 t) x2))
                              (fmul ar (mB1 t) y1))
                     (fmul ar (mB2 t) y2)
     in (t\<lparr>mX1 := put2 (mX1 t) s x, mX2 := put2 (mX2 t) s x1,
            mY1 := put2 (mY1 t) s y, mY2 := put2 (mY2 t) s y1\<rparr>,
         buffer(i * pitch + s := y)))"

function direct_form_loop ::
  "('f, 'd) float_ops \<Rightarrow> int \<Rightarrow> int \<Rightarrow> int \<Rightarrow> int \<Rightarrow>
   'f BiquadResonantFilterInstance \<times> (int \<Rightarrow> 'f) \<Rightarrow>
   'f BiquadResonantFilterInstance \<times> (int \<Rightarrow> 'f)"
where
  "direct_form_loop ar pitch s sampleCount i tb =
    (if i < sampleCount then
       direct_form_loop ar pitch s sampleCount (i + 1) (direct_form_step ar pitch s i tb)
     else tb)"
  by pat_completeness auto
termination
  by (relation "measure (\<lambda>(ar, pitch, s, sampleCount, i, tb). nat (sampleCount - i))") auto

declare direct_form_loop.simps [simp del]

subsection \<open>Frames\<close>

text \<open>
  \<open>settings_kept t t'\<close>: the instance \<open>t'\<close> has every field of \<open>t\<close> other than the
  histories \<open>mX1\<close>, \<open>mX2\<close>, \<open>mY1\<close>, \<open>mY2\<close>. \<open>channel_kept s t t'\<close>: the
  history of channel \<open>s\<close> is the same in \<open>t\<close> and \<open>t'\<close>. \<open>with_history s h t\<close>:
  the instance \<open>t\<close> with the history \<open>h = (x1, x2, y1, y2)\<close> stored for channel \<open>s\<close>.
\<close>

definition settings_kept ::
  "'f BiquadResonantFilterInstance \<Rightarrow> 'f BiquadResonantFilterInstance \<Rightarrow> bool"
where
  "settings_kept t t' =
    (mParent t' = mParent t \<and> mFilterType t' = mFilterType t \<and>
     mSampleRate t' = mSampleRate t \<and> mFrequency t' = mFrequency t \<and>
     mResonance t' = mResonance t \<and> mActive t' = mActive t \<and> mDirty t' = mDirty t \<and>
     mA0 t' = mA0 t \<and> mA1 t' = mA1 t \<and> mA2 t' = mA2 t \<and> mB1 t' = mB1 t \<and>
     mB2 t' = mB2 t \<and> mFrequencyFader t' = mFrequencyFader t \<and>
     mSampleRateFader t' = mSampleRateFader t \<and> mResonanceFader t' = mResonanceFader t)"

definition channel_kept ::
  "int \<Rightarrow> 'f BiquadResonantFilterInstance \<Rightarrow> 'f BiquadResonantFilterInstance \<Rightarrow> bool"
where
  "channel_kept s t t' =
    (at2 (mX1 t') s = at2 (mX1 t) s \<and> at2 (mX2 t') s = at2 (mX2 t) s \<and>
     at2 (mY1 t') s = at2 (mY1 t) s \<and> at2 (mY2 t') s = at2 (mY2 t) s)"

definition with_history ::
  "int \<Rightarrow> 'f \<times> 'f \<times> 'f \<times> 'f \<Rightarrow> 'f BiquadResonantFilterInstance \<Rightarrow>
   'f BiquadResonantFilterInstance"
where
  "with_history s h t =
    (case h of (x1, x2, y1, y2) \<Rightarrow>
       t\<lparr>mX1 := put2 (mX1 t) s x1, mX2 := put2 (mX2 t) s x2,
         mY1 := put2 (mY1 t) s y1, mY2 := put2 (mY2 t) s y2\<rparr>)"

subsection \<open>Concrete inputs\<close>

text \<open>
  Modelled from the spec: a \<^verbatim>\<open>Fader\<close> over the reals, after section 4.2 of the
  specification. \<open>ramp_set\<close> arms a one-shot linear ramp and \<open>lfo_set\<close> an oscillation;
  \<open>ramp_get\<close> is the value of a ramp at a time: the linear interpolation between
  \<open>mFrom\<close> and \<open>mTo\<close>, clamped to \<open>mFrom\<close> before the start, and \<open>mTo\<close> from
  the end of the ramp on, where the fader becomes inactive. The specification fixes no
  waveform for an oscillation; \<open>ramp_get\<close> is used on ramps only.
\<close>

definition idle_fader :: "real Fader" where
  "idle_fader = \<lparr>Fader.mActive = 0, mFrom = 0, mTo = 0, mTime = 0, mStartTime = 0\<rparr>"

definition ramp_set :: "real Fader_set" where
  "ramp_set aFrom aTo aTime aStartTime fd =
    \<lparr>Fader.mActive = 1, mFrom = aFrom, mTo = aTo, mTime = aTime, mStartTime = aStartTime\<rparr>"

definition lfo_set :: "real Fader_set" where
  "lfo_set aFrom aTo aTime aStartTime fd =
    \<lparr>Fader.mActive = 2, mFrom = aFrom, mTo = aTo, mTime = aTime, mStartTime = aStartTime\<rparr>"

definition ramp_get :: "real Fader_get" where
  "ramp_get fd aCurrentTime =
    (if mStartTime fd + mTime fd \<le> aCurrentTime then (mTo fd, fd\<lparr>Fader.mActive := 0\<rparr>)
     else if aCurrentTime \<le> mStartTime fd then (mFrom fd, fd)
     else (mFrom fd + (mTo fd - mFrom fd) * ((aCurrentTime - mStartTime fd) / mTime fd), fd))"

text \<open>
  The storage of a new instance filled with zeros, the template that the constructor of
  the template class builds (LOWPASS, 44100 Hz, 1000 Hz, resonance 2), and the instance
  created from that template with its frequency set to 11025 Hz, a quarter of the
  sample rate.
\<close>

definition zero_storage :: "real BiquadResonantFilterInstance" where
  "zero_storage =
    \<lparr>mParent = 0, mFilterType = 0, mSampleRate = 0, mFrequency = 0, mResonance = 0,
     mActive = 0, mDirty = 0, mA0 = 0, mA1 = 0, mA2 = 0, mB1 = 0, mB2 = 0,
     mX1 = (0, 0), mX2 = (0, 0), mY1 = (0, 0), mY2 = (0, 0),
     mFrequencyFader = idle_fader, mSampleRateFader = idle_fader,
     mResonanceFader = idle_fader\<rparr>"

definition default_template :: "real BiquadResonantFilter" where
  "default_template =
    new_BiquadResonantFilter exact
      \<lparr>BiquadResonantFilter.mFilterType = 0, BiquadResonantFilter.mSampleRate = 0,
       BiquadResonantFilter.mFrequency = 0, BiquadResonantFilter.mResonance = 0\<rparr>"

definition default_instance :: "real BiquadResonantFilterInstance" where
  "default_instance =
    setFilterParameter FREQUENCY 11025
      (createInstance exact idle_fader zero_storage 0 default_template)"

text \<open>
  An instance created from a template of type NONE, an instance whose coefficients are up
  to date, that instance with a ramp of the frequency from 100 Hz to 2000 Hz over one
  second armed at time 0, and a buffer that holds a unit impulse.
\<close>

definition bypass_instance :: "real BiquadResonantFilterInstance" where
  "bypass_instance =
    createInstance exact idle_fader zero_storage 0 (setParams NONE 44100 1000 2 default_template)"

definition clean_instance :: "real BiquadResonantFilterInstance" where
  "clean_instance = calcBQRParams exact default_instance"

definition fading_instance :: "real BiquadResonantFilterInstance" where
  "fading_instance = fadeFilterParameter exact ramp_set FREQUENCY 100 2000 1 0 clean_instance"

definition impulse_buffer :: "int \<Rightarrow> real" where
  "impulse_buffer i = (if i = 0 then 1 else 0)"

section \<open>Properties\<close>

subsection \<open>Auxiliary facts\<close>

lemmas enum_defs = NONE_def LOWPASS_def HIGHPASS_def BANDPASS_def

lemmas attribute_defs = FREQUENCY_def SAMPLERATE_def RESONANCE_def

lemma at2_put2: "at2 (put2 a s v) s' = (if (s = 0) = (s' = 0) then v else at2 a s')"
  by (simp add: at2_def put2_def)

lemma put2_put2: "put2 (put2 a s v) s w = put2 a s w"
  by (simp add: at2_def put2_def)

lemma default_instance_fields:
  "mFilterType default_instance = LOWPASS" "mSampleRate default_instance = 44100"
  "mFrequency default_instance = 11025" "mResonance default_instance = 2"
  "mActive default_instance = 1" "mDirty default_instance = 1"
  "mFrequencyFader default_instance = idle_fader"
  "mSampleRateFader default_instance = idle_fader"
  "mResonanceFader default_instance = idle_fader"
  "mX1 default_instance = (0, 0)" "mX2 default_instance = (0, 0)"
  "mY1 default_instance = (0, 0)" "mY2 default_instance = (0, 0)"
  by (simp_all add: default_instance_def setFilterParameter_def createInstance_def
      new_BiquadResonantFilterInstance_def default_template_def new_BiquadResonantFilter_def
      setParams_def calcBQRParams_def Let_def enum_defs exact_def zero_storage_def
      FREQUENCY_def idle_fader_def put2_def at2_def)

lemma clean_instance_fields:
  "mFilterType clean_instance = LOWPASS" "mSampleRate clean_instance = 44100"
  "mFrequency clean_instance = 11025" "mResonance clean_instance = 2"
  "mActive clean_instance = 1" "mDirty clean_instance = 0"
  "mA0 clean_instance = 2/5" "mA1 clean_instance = 4/5" "mA2 clean_instance = 2/5"
  "mB1 clean_instance = 0" "mB2 clean_instance = 3/5"
  "mFrequencyFader clean_instance = idle_fader"
  "mSampleRateFader clean_instance = idle_fader"
  "mResonanceFader clean_instance = idle_fader"
  "mX1 clean_instance = (0, 0)" "mX2 clean_instance = (0, 0)"
  "mY1 clean_instance = (0, 0)" "mY2 clean_instance = (0, 0)"
  by (simp_all add: clean_instance_def calcBQRParams_def Let_def default_instance_fields
      enum_defs exact_def of_rat_divide)

lemma bypass_instance_fields:
  "mFilterType bypass_instance = NONE" "mActive bypass_instance = 0"
  by (simp_all add: bypass_instance_def createInstance_def
      new_BiquadResonantFilterInstance_def setParams_def calcBQRParams_def Let_def)

subsection \<open>Coefficient computation\<close>

text \<open>
  C1. For every instance whose type is LOWPASS, HIGHPASS or BANDPASS and whose resonance
  is non-zero, \<open>calcBQRParams\<close> sets the five coefficients to the closed forms of
  section 4.1 of the specification. With \<open>omega = 2\<cdot>\<pi>\<cdot>frequency/sampleRate\<close>,
  \<open>alpha = sin(omega)/(2\<cdot>resonance)\<close> and \<open>scalar = 1/(1+alpha)\<close>: for LOWPASS
  \<open>a0 = a2 = 0.5\<cdot>(1 - cos omega)\<cdot>scalar\<close> and \<open>a1 = (1 - cos omega)\<cdot>scalar\<close>; for
  HIGHPASS \<open>a0 = a2 = 0.5\<cdot>(1 + cos omega)\<cdot>scalar\<close> and
  \<open>a1 = -(1 + cos omega)\<cdot>scalar\<close>; for BANDPASS \<open>a0 = alpha\<cdot>scalar\<close>, \<open>a1 = 0\<close> and
  \<open>a2 = -a0\<close>; for all three \<open>b1 = -2\<cdot>cos(omega)\<cdot>scalar\<close> and
  \<open>b2 = (1 - alpha)\<cdot>scalar\<close>. The operations are those of the arithmetic \<open>ar\<close>, applied
  in the order in which the specification writes them.
\<close>

theorem calcBQRParams_closed_forms:
  assumes "mFilterType t = LOWPASS \<or> mFilterType t = HIGHPASS \<or> mFilterType t = BANDPASS"
    and "\<not> feq ar (mResonance t) (fconst ar 0)"
  shows "let omega = d2f ar (ddiv ar (dmul ar (dmul ar (f2d ar (fconst ar 2)) (dpi ar))
                                            (f2d ar (mFrequency t)))
                                   (f2d ar (mSampleRate t)));
             alpha = fdiv ar (fsin ar omega) (fmul ar (fconst ar 2) (mResonance t));
             scalar = fdiv ar (fconst ar 1) (fadd ar (fconst ar 1) alpha);
             t' = calcBQRParams ar t
         in (mFilterType t = LOWPASS \<longrightarrow>
               mA0 t' = fmul ar (fmul ar (fconst ar (1/2))
                                         (fsub ar (fconst ar 1) (fcos ar omega))) scalar \<and>
               mA2 t' = mA0 t' \<and>
               mA1 t' = fmul ar (fsub ar (fconst ar 1) (fcos ar omega)) scalar) \<and>
            (mFilterType t = HIGHPASS \<longrightarrow>
               mA0 t' = fmul ar (fmul ar (fconst ar (1/2))
                                         (fadd ar (fconst ar 1) (fcos ar omega))) scalar \<and>
               mA2 t' = mA0 t' \<and>
               mA1 t' = fmul ar (fneg ar (fadd ar (fconst ar 1) (fcos ar omega))) scalar) \<and>
            (mFilterType t = BANDPASS \<longrightarrow>
               mA0 t' = fmul ar alpha scalar \<and>
               mA1 t' = fconst ar 0 \<and>
               mA2 t' = fneg ar (mA0 t')) \<and>
            mB1 t' = fmul ar (fmul ar (fneg ar (fconst ar 2)) (fcos ar omega)) scalar \<and>
            mB2 t' = fmul ar (fsub ar (fconst ar 1) alpha) scalar"
  using assms(1) by (auto simp add: calcBQRParams_def Let_def enum_defs)

text \<open>
  At a quarter of the sample rate \<open>omega\<close> is \<open>\<pi>/2\<close>; with resonance 2 the low-pass
  coefficients in exact arithmetic are \<open>2/5, 4/5, 2/5, 0, 3/5\<close>.
\<close>

theorem calcBQRParams_closed_forms_witness:
  "mFilterType default_instance = LOWPASS \<and>
   \<not> feq exact (mResonance default_instance) (fconst exact 0) \<and>
   mA0 (calcBQRParams exact default_instance) = 2/5 \<and>
   mA1 (calcBQRParams exact default_instance) = 4/5 \<and>
   mA2 (calcBQRParams exact default_instance) = 2/5 \<and>
   mB1 (calcBQRParams exact default_instance) = 0 \<and>
   mB2 (calcBQRParams exact default_instance) = 3/5"
  using calcBQRParams_closed_forms[of default_instance exact]
  by (simp add: default_instance_fields Let_def exact_def of_rat_divide)

subsection \<open>The sample loop\<close>

lemma sample_pair_direct_form:
  "sample_pair ar pitch s i tb =
     direct_form_step ar pitch s (i + 1) (direct_form_step ar pitch s i tb)"
  by (simp add: sample_pair_def direct_form_step_def Let_def at2_put2 put2_put2)

lemma sample_loop_direct_form:
  "even (aSamples - i) \<Longrightarrow>
   sample_loop ar pitch s aSamples i tb = direct_form_loop ar pitch s aSamples i tb"
proof (induction ar pitch s aSamples i tb rule: sample_loop.induct)
  case (1 ar pitch s aSamples i tb)
  show ?case
  proof (cases "i < aSamples")
    case False
    then show ?thesis by (simp add: sample_loop.simps direct_form_loop.simps)
  next
    case True
    with "1.prems" have lt: "i + 1 < aSamples" by presburger
    have e: "i + 1 + 1 = i + 2" by simp
    from "1.prems" have ev: "even (aSamples - (i + 2))" by simp
    have "sample_loop ar pitch s aSamples i tb =
          sample_loop ar pitch s aSamples (i + 2) (sample_pair ar pitch s i tb)"
      using True by (simp add: sample_loop.simps)
    also have "\<dots> = direct_form_loop ar pitch s aSamples (i + 2) (sample_pair ar pitch s i tb)"
      using "1.IH"[OF True ev] .
    also have "\<dots> = direct_form_loop ar pitch s aSamples (i + 1 + 1)
                       (direct_form_step ar pitch s (i + 1) (direct_form_step ar pitch s i tb))"
      by (simp only: sample_pair_direct_form e)
    also have "\<dots> = direct_form_loop ar pitch s aSamples (i + 1) (direct_form_step ar pitch s i tb)"
      using lt by (subst (2) direct_form_loop.simps) (simp add: add.assoc)
    also have "\<dots> = direct_form_loop ar pitch s aSamples i tb"
      using True by (subst (2) direct_form_loop.simps) simp
    finally show ?thesis .
  qed
qed

text \<open>
  C2. For every even sample count and every channel, the loop of \<open>filter\<close> that handles
  two samples per iteration leaves the same buffer (the same written output sequence) and
  the same instance (the same final \<open>x1, x2, y1, y2\<close> of the channel) as the direct-form
  recurrence run one sample at a time from the stored history of the channel.
\<close>

theorem sample_loop_refines_direct_form:
  assumes "even aSamples"
  shows "sample_loop ar pitch s aSamples 0 (t, aBuffer) =
         direct_form_loop ar pitch s aSamples 0 (t, aBuffer)"
  using assms by (simp add: sample_loop_direct_form)

text \<open>
  Two samples of the unit impulse through the low-pass filter of coefficients
  \<open>2/5, 4/5, 2/5, 0, 3/5\<close>: the outputs are \<open>2/5\<close> and \<open>4/5\<close>.
\<close>

theorem sample_loop_refines_direct_form_witness:
  "even (2::int) \<and>
   sample_loop exact 1 0 2 0 (clean_instance, impulse_buffer) =
     direct_form_loop exact 1 0 2 0 (clean_instance, impulse_buffer) \<and>
   snd (sample_loop exact 1 0 2 0 (clean_instance, impulse_buffer)) 0 = 2/5 \<and>
   snd (sample_loop exact 1 0 2 0 (clean_instance, impulse_buffer)) 1 = 4/5 \<and>
   mY1 (fst (sample_loop exact 1 0 2 0 (clean_instance, impulse_buffer))) = (4/5, 0)"
  using sample_loop_refines_direct_form[of 2 exact 1 0 clean_instance impulse_buffer]
  by (simp add: direct_form_loop.simps direct_form_step_def Let_def clean_instance_fields
      impulse_buffer_def exact_def at2_def put2_def)

subsection \<open>Inactive instances\<close>

text \<open>
  C3. For every buffer, sample count, stereo flag, sample rate and time, \<open>filter\<close> on an
  inactive instance returns at once: the buffer and every field of the instance are as
  they were. An instance is inactive in particular after \<open>calcBQRParams\<close> has run on
  type NONE.
\<close>

theorem filter_inactive_identity:
  "(mActive t = 0 \<longrightarrow>
      filter_inst ar fader_get aBuffer aSamples aStereo aSamplerate aTime t = (t, aBuffer)) \<and>
   (mFilterType t = NONE \<longrightarrow>
      mActive (calcBQRParams ar t) = 0 \<and>
      filter_inst ar fader_get aBuffer aSamples aStereo aSamplerate aTime (calcBQRParams ar t)
        = (calcBQRParams ar t, aBuffer))"
  by (simp add: filter_inst_def calcBQRParams_def Let_def)

theorem filter_inactive_identity_witness:
  "mActive bypass_instance = 0 \<and> mFilterType bypass_instance = NONE \<and>
   filter_inst exact ramp_get impulse_buffer 2 1 44100 0 bypass_instance
     = (bypass_instance, impulse_buffer) \<and>
   filter_inst exact ramp_get impulse_buffer 2 1 44100 0 (calcBQRParams exact bypass_instance)
     = (calcBQRParams exact bypass_instance, impulse_buffer)"
  using filter_inactive_identity[of bypass_instance exact ramp_get impulse_buffer 2 1 44100 0]
  by (simp add: bypass_instance_fields)

subsection \<open>Parameter dispatch\<close>

text \<open>
  C5. For every value, \<open>setFilterParameter\<close> with the attribute FREQUENCY (SAMPLERATE,
  RESONANCE) writes the value into the matching field, makes the fader of that field
  inactive and sets the dirty flag, and changes nothing else; with any other attribute
  identifier it leaves the instance as it was.
\<close>

theorem setFilterParameter_effect:
  "setFilterParameter FREQUENCY aValue t =
     t\<lparr>mFrequency := aValue, mDirty := 1,
       mFrequencyFader := (mFrequencyFader t)\<lparr>Fader.mActive := 0\<rparr>\<rparr> \<and>
   setFilterParameter SAMPLERATE aValue t =
     t\<lparr>mSampleRate := aValue, mDirty := 1,
       mSampleRateFader := (mSampleRateFader t)\<lparr>Fader.mActive := 0\<rparr>\<rparr> \<and>
   setFilterParameter RESONANCE aValue t =
     t\<lparr>mResonance := aValue, mDirty := 1,
       mResonanceFader := (mResonanceFader t)\<lparr>Fader.mActive := 0\<rparr>\<rparr> \<and>
   (aAttributeId \<noteq> FREQUENCY \<and> aAttributeId \<noteq> SAMPLERATE \<and> aAttributeId \<noteq> RESONANCE \<longrightarrow>
      setFilterParameter aAttributeId aValue t = t)"
  by (simp add: setFilterParameter_def Let_def attribute_defs)

theorem setFilterParameter_effect_witness:
  "7 \<noteq> FREQUENCY \<and> 7 \<noteq> SAMPLERATE \<and> 7 \<noteq> RESONANCE \<and>
   setFilterParameter 7 5 clean_instance = clean_instance \<and>
   mResonance (setFilterParameter RESONANCE 5 clean_instance) = 5 \<and>
   mDirty (setFilterParameter RESONANCE 5 clean_instance) = 1 \<and>
   Fader.mActive (mResonanceFader (setFilterParameter RESONANCE 5
     (fadeFilterParameter exact ramp_set RESONANCE 1 5 2 0 clean_instance))) = 0"
  using setFilterParameter_effect[of 5 clean_instance 7]
    setFilterParameter_effect[of 5 "fadeFilterParameter exact ramp_set RESONANCE 1 5 2 0 clean_instance" 7]
  by (simp add: attribute_defs)

text \<open>
  C7. For every attribute identifier and all arguments with \<open>from == to\<close> or
  \<open>duration <= 0\<close>, \<open>fadeFilterParameter\<close> and \<open>oscillateFilterParameter\<close> leave the
  instance, its faders included, as it was.
\<close>

theorem degenerate_fade_is_noop:
  assumes "feq ar aFrom aTo \<or> fle ar aTime (fconst ar 0)"
  shows "fadeFilterParameter ar fader_set aAttributeId aFrom aTo aTime aStartTime t = t \<and>
         oscillateFilterParameter ar fader_setLFO aAttributeId aFrom aTo aTime aStartTime t = t"
  using assms by (simp add: fadeFilterParameter_def oscillateFilterParameter_def)

theorem degenerate_fade_is_noop_witness:
  "feq exact 3 3 \<and> fle exact (-1) (fconst exact 0) \<and>
   fadeFilterParameter exact ramp_set FREQUENCY 3 3 1 0 clean_instance = clean_instance \<and>
   oscillateFilterParameter exact lfo_set FREQUENCY 3 3 1 0 clean_instance = clean_instance \<and>
   fadeFilterParameter exact ramp_set RESONANCE 1 5 (-1) 0 clean_instance = clean_instance \<and>
   oscillateFilterParameter exact lfo_set RESONANCE 1 5 (-1) 0 clean_instance = clean_instance"
  using degenerate_fade_is_noop[of exact 3 3 1 ramp_set FREQUENCY 0 clean_instance lfo_set]
    degenerate_fade_is_noop[of exact 1 5 "-1" ramp_set RESONANCE 0 clean_instance lfo_set]
  by (simp add: exact_def)

subsection \<open>What the loops leave alone\<close>

lemma settings_kept_refl: "settings_kept t t"
  by (simp add: settings_kept_def)

lemma settings_kept_trans: "settings_kept t t' \<Longrightarrow> settings_kept t' t'' \<Longrightarrow> settings_kept t t''"
  by (simp add: settings_kept_def)

lemma channel_kept_refl: "channel_kept s t t"
  by (simp add: channel_kept_def)

lemma channel_kept_trans: "channel_kept s t t' \<Longrightarrow> channel_kept s t' t'' \<Longrightarrow> channel_kept s t t''"
  by (simp add: channel_kept_def)

lemma sample_pair_settings: "settings_kept (fst tb) (fst (sample_pair ar pitch s i tb))"
  by (simp add: sample_pair_def settings_kept_def Let_def)

lemma sample_pair_other:
  "(s = 0) \<noteq> (s' = 0) \<Longrightarrow> channel_kept s' (fst tb) (fst (sample_pair ar pitch s i tb))"
  by (simp add: sample_pair_def channel_kept_def Let_def at2_put2)

lemma sample_loop_settings: "settings_kept (fst tb) (fst (sample_loop ar pitch s aSamples i tb))"
proof (induction ar pitch s aSamples i tb rule: sample_loop.induct)
  case (1 ar pitch s aSamples i tb)
  show ?case
  proof (cases "i < aSamples")
    case True
    from "1.IH"[OF True] sample_pair_settings[of tb ar pitch s i]
    have "settings_kept (fst tb)
            (fst (sample_loop ar pitch s aSamples (i + 2) (sample_pair ar pitch s i tb)))"
      by (rule settings_kept_trans[rotated])
    with True show ?thesis by (simp add: sample_loop.simps)
  next
    case False
    then show ?thesis by (simp add: sample_loop.simps settings_kept_refl)
  qed
qed

lemma sample_loop_other:
  "(s = 0) \<noteq> (s' = 0) \<Longrightarrow>
   channel_kept s' (fst tb) (fst (sample_loop ar pitch s aSamples i tb))"
proof (induction ar pitch s aSamples i tb rule: sample_loop.induct)
  case (1 ar pitch s aSamples i tb)
  show ?case
  proof (cases "i < aSamples")
    case True
    from "1.IH"[OF True "1.prems"] sample_pair_other[OF "1.prems", of tb ar pitch i]
    have "channel_kept s' (fst tb)
            (fst (sample_loop ar pitch s aSamples (i + 2) (sample_pair ar pitch s i tb)))"
      by (rule channel_kept_trans[rotated])
    with True show ?thesis by (simp add: sample_loop.simps)
  next
    case False
    then show ?thesis by (simp add: sample_loop.simps channel_kept_refl)
  qed
qed

lemma add_impulse_settings: "settings_kept t (add_impulse ar s t)"
  by (simp add: add_impulse_def settings_kept_def)

lemma add_impulse_other: "(s = 0) \<noteq> (s' = 0) \<Longrightarrow> channel_kept s' t (add_impulse ar s t)"
  by (simp add: add_impulse_def channel_kept_def at2_put2)

lemma channel_loop_settings:
  "settings_kept (fst tb) (fst (channel_loop ar pitch aSamples s tb))"
proof (induction ar pitch aSamples s tb rule: channel_loop.induct)
  case (1 ar pitch aSamples s tb)
  show ?case
  proof (cases "s < pitch")
    case True
    let ?tb1 = "sample_loop ar pitch s aSamples 0 tb"
    let ?tb2 = "(add_impulse ar s (fst ?tb1), snd ?tb1)"
    have a: "settings_kept (fst tb) (fst ?tb2)"
      using sample_loop_settings[of tb ar pitch s aSamples 0] add_impulse_settings[of "fst ?tb1" ar s]
      by (auto intro: settings_kept_trans)
    have b: "settings_kept (fst ?tb2) (fst (channel_loop ar pitch aSamples (s + 1) ?tb2))"
      using "1.IH"[OF True refl refl] .
    from settings_kept_trans[OF a b] True show ?thesis
      by (subst channel_loop.simps) (simp add: Let_def)
  next
    case False
    then show ?thesis by (simp add: channel_loop.simps settings_kept_refl)
  qed
qed

lemma channel_loop_mono:
  "channel_loop ar 1 aSamples 0 tb =
     (let tb0 = sample_loop ar 1 0 aSamples 0 tb in (add_impulse ar 0 (fst tb0), snd tb0))"
  by (simp add: channel_loop.simps Let_def)

lemma channel_loop_stereo:
  "channel_loop ar 2 aSamples 0 tb =
     (let tb0 = sample_loop ar 2 0 aSamples 0 tb;
          tb1 = sample_loop ar 2 1 aSamples 0 (add_impulse ar 0 (fst tb0), snd tb0)
      in (add_impulse ar 1 (fst tb1), snd tb1))"
  by (simp add: channel_loop.simps Let_def)

subsection \<open>Parameter update and coefficient caching\<close>

lemma read_faders_idle:
  "\<not> 0 < Fader.mActive (mFrequencyFader t) \<Longrightarrow> \<not> 0 < Fader.mActive (mSampleRateFader t) \<Longrightarrow>
   \<not> 0 < Fader.mActive (mResonanceFader t) \<Longrightarrow> read_faders fader_get aTime t = t"
  by (simp add: read_faders_def Let_def)

lemma read_faders_dirty:
  "0 < Fader.mActive (mFrequencyFader t) \<or> 0 < Fader.mActive (mSampleRateFader t) \<or>
   0 < Fader.mActive (mResonanceFader t) \<Longrightarrow> mDirty (read_faders fader_get aTime t) = 1"
  by (auto simp add: read_faders_def Let_def split: prod.splits)

lemma read_faders_frame:
  "mFilterType (read_faders fader_get aTime t) = mFilterType t"
  "mX1 (read_faders fader_get aTime t) = mX1 t" "mX2 (read_faders fader_get aTime t) = mX2 t"
  "mY1 (read_faders fader_get aTime t) = mY1 t" "mY2 (read_faders fader_get aTime t) = mY2 t"
  by (simp_all add: read_faders_def Let_def split: prod.splits)

lemma calcBQRParams_frame:
  "mFilterType (calcBQRParams ar t) = mFilterType t"
  "mX1 (calcBQRParams ar t) = mX1 t" "mX2 (calcBQRParams ar t) = mX2 t"
  "mY1 (calcBQRParams ar t) = mY1 t" "mY2 (calcBQRParams ar t) = mY2 t"
  "mFrequencyFader (calcBQRParams ar t) = mFrequencyFader t"
  "mSampleRateFader (calcBQRParams ar t) = mSampleRateFader t"
  "mResonanceFader (calcBQRParams ar t) = mResonanceFader t"
  "mDirty (calcBQRParams ar t) = 0"
  by (simp_all add: calcBQRParams_def Let_def)

lemma recalc_if_dirty_clean: "mDirty (recalc_if_dirty ar t) = 0"
  by (simp add: recalc_if_dirty_def calcBQRParams_frame)

lemma filter_inst_active:
  "mActive t \<noteq> 0 \<Longrightarrow>
   filter_inst ar fader_get aBuffer aSamples aStereo aSamplerate aTime t =
     channel_loop ar (if aStereo \<noteq> 0 then 2 else 1) aSamples 0
       (recalc_if_dirty ar (read_faders fader_get aTime t), aBuffer)"
  by (simp add: filter_inst_def Let_def)

lemma filter_inst_settings:
  "mActive t \<noteq> 0 \<Longrightarrow>
   settings_kept (recalc_if_dirty ar (read_faders fader_get aTime t))
     (fst (filter_inst ar fader_get aBuffer aSamples aStereo aSamplerate aTime t))"
  using channel_loop_settings[of "(recalc_if_dirty ar (read_faders fader_get aTime t), aBuffer)" ar]
  by (simp add: filter_inst_active)

text \<open>
  C4. A call of \<open>filter\<close> on an active instance first reads the faders (\<open>t1\<close>): for each
  of the three faders that is active (\<open>mActive > 0\<close>) the value of the fader at the
  current time is stored into the matching field and the dirty flag is set, and a fader
  that is not active leaves its field alone. Then (\<open>t2\<close>) the coefficients are
  recomputed if and only if the dirty flag is set, after which the flag is clear. The
  channel loops run on \<open>t2\<close> and keep its coefficients and the clear flag. So when no
  fader is active, the next call, at any time \<open>aTime'\<close>, finds nothing to read and
  nothing to recompute: it runs with the very coefficients of this call.
\<close>

theorem filter_fader_update_and_caching:
  "let t1 = read_faders fader_get aTime t;
       t2 = recalc_if_dirty ar t1
   in (0 < Fader.mActive (mFrequencyFader t) \<longrightarrow>
         mFrequency t1 = fst (fader_get (mFrequencyFader t) aTime) \<and> mDirty t1 = 1) \<and>
      (0 < Fader.mActive (mSampleRateFader t) \<longrightarrow>
         mSampleRate t1 = fst (fader_get (mSampleRateFader t) aTime) \<and> mDirty t1 = 1) \<and>
      (0 < Fader.mActive (mResonanceFader t) \<longrightarrow>
         mResonance t1 = fst (fader_get (mResonanceFader t) aTime) \<and> mDirty t1 = 1) \<and>
      (\<not> 0 < Fader.mActive (mFrequencyFader t) \<longrightarrow>
         mFrequency t1 = mFrequency t \<and> mFrequencyFader t1 = mFrequencyFader t) \<and>
      (\<not> 0 < Fader.mActive (mSampleRateFader t) \<longrightarrow>
         mSampleRate t1 = mSampleRate t \<and> mSampleRateFader t1 = mSampleRateFader t) \<and>
      (\<not> 0 < Fader.mActive (mResonanceFader t) \<longrightarrow>
         mResonance t1 = mResonance t \<and> mResonanceFader t1 = mResonanceFader t) \<and>
      (\<not> 0 < Fader.mActive (mFrequencyFader t) \<and> \<not> 0 < Fader.mActive (mSampleRateFader t) \<and>
       \<not> 0 < Fader.mActive (mResonanceFader t) \<longrightarrow> t1 = t) \<and>
      t2 = (if mDirty t1 \<noteq> 0 then calcBQRParams ar t1 else t1) \<and>
      mDirty t2 = 0 \<and>
      (mActive t \<noteq> 0 \<longrightarrow>
         (let t' = fst (filter_inst ar fader_get aBuffer aSamples aStereo aSamplerate aTime t)
          in filter_inst ar fader_get aBuffer aSamples aStereo aSamplerate aTime t =
               channel_loop ar (if aStereo \<noteq> 0 then 2 else 1) aSamples 0 (t2, aBuffer) \<and>
             coefficients t' = coefficients t2 \<and> mDirty t' = 0 \<and>
             (\<not> 0 < Fader.mActive (mFrequencyFader t) \<and>
              \<not> 0 < Fader.mActive (mSampleRateFader t) \<and>
              \<not> 0 < Fader.mActive (mResonanceFader t) \<longrightarrow>
                recalc_if_dirty ar (read_faders fader_get aTime' t') = t')))"
proof -
  let ?t1 = "read_faders fader_get aTime t"
  let ?t2 = "recalc_if_dirty ar ?t1"
  let ?t' = "fst (filter_inst ar fader_get aBuffer aSamples aStereo aSamplerate aTime t)"
  have a: "0 < Fader.mActive (mFrequencyFader t) \<longrightarrow>
         mFrequency ?t1 = fst (fader_get (mFrequencyFader t) aTime) \<and> mDirty ?t1 = 1"
    by (simp add: read_faders_def Let_def split: prod.splits)
  have b: "0 < Fader.mActive (mSampleRateFader t) \<longrightarrow>
         mSampleRate ?t1 = fst (fader_get (mSampleRateFader t) aTime) \<and> mDirty ?t1 = 1"
    by (simp add: read_faders_def Let_def split: prod.splits)
  have c: "0 < Fader.mActive (mResonanceFader t) \<longrightarrow>
         mResonance ?t1 = fst (fader_get (mResonanceFader t) aTime) \<and> mDirty ?t1 = 1"
    by (simp add: read_faders_def Let_def split: prod.splits)
  have d: "\<not> 0 < Fader.mActive (mFrequencyFader t) \<longrightarrow>
         mFrequency ?t1 = mFrequency t \<and> mFrequencyFader ?t1 = mFrequencyFader t"
    by (simp add: read_faders_def Let_def split: prod.splits)
  have e: "\<not> 0 < Fader.mActive (mSampleRateFader t) \<longrightarrow>
         mSampleRate ?t1 = mSampleRate t \<and> mSampleRateFader ?t1 = mSampleRateFader t"
    by (simp add: read_faders_def Let_def split: prod.splits)
  have f: "\<not> 0 < Fader.mActive (mResonanceFader t) \<longrightarrow>
         mResonance ?t1 = mResonance t \<and> mResonanceFader ?t1 = mResonanceFader t"
    by (simp add: read_faders_def Let_def split: prod.splits)
  have g: "\<not> 0 < Fader.mActive (mFrequencyFader t) \<and> \<not> 0 < Fader.mActive (mSampleRateFader t) \<and>
       \<not> 0 < Fader.mActive (mResonanceFader t) \<longrightarrow> ?t1 = t"
    by (simp add: read_faders_idle)
  have h: "?t2 = (if mDirty ?t1 \<noteq> 0 then calcBQRParams ar ?t1 else ?t1)"
    by (simp add: recalc_if_dirty_def)
  have i: "mDirty ?t2 = 0" by (rule recalc_if_dirty_clean)
  have j: "mActive t \<noteq> 0 \<longrightarrow>
         (filter_inst ar fader_get aBuffer aSamples aStereo aSamplerate aTime t =
               channel_loop ar (if aStereo \<noteq> 0 then 2 else 1) aSamples 0 (?t2, aBuffer) \<and>
             coefficients ?t' = coefficients ?t2 \<and> mDirty ?t' = 0 \<and>
             (\<not> 0 < Fader.mActive (mFrequencyFader t) \<and>
              \<not> 0 < Fader.mActive (mSampleRateFader t) \<and>
              \<not> 0 < Fader.mActive (mResonanceFader t) \<longrightarrow>
                recalc_if_dirty ar (read_faders fader_get aTime' ?t') = ?t'))"
  proof
    assume act: "mActive t \<noteq> 0"
    have eq: "filter_inst ar fader_get aBuffer aSamples aStereo aSamplerate aTime t =
               channel_loop ar (if aStereo \<noteq> 0 then 2 else 1) aSamples 0 (?t2, aBuffer)"
      using act by (rule filter_inst_active)
    have kept: "settings_kept ?t2 ?t'"
      unfolding eq using channel_loop_settings[of "(?t2, aBuffer)" ar] by simp
    have co: "coefficients ?t' = coefficients ?t2"
      using kept by (simp add: settings_kept_def coefficients_def)
    have di: "mDirty ?t' = 0"
      using kept i by (simp add: settings_kept_def)
    have idle: "recalc_if_dirty ar (read_faders fader_get aTime' ?t') = ?t'"
      if "\<not> 0 < Fader.mActive (mFrequencyFader t) \<and>
              \<not> 0 < Fader.mActive (mSampleRateFader t) \<and>
              \<not> 0 < Fader.mActive (mResonanceFader t)"
    proof -
      from that g have t1: "?t1 = t" by simp
      have "mFrequencyFader ?t2 = mFrequencyFader t" "mSampleRateFader ?t2 = mSampleRateFader t"
        "mResonanceFader ?t2 = mResonanceFader t"
        by (simp_all add: t1 recalc_if_dirty_def calcBQRParams_frame)
      with kept that have "\<not> 0 < Fader.mActive (mFrequencyFader ?t')"
        "\<not> 0 < Fader.mActive (mSampleRateFader ?t')" "\<not> 0 < Fader.mActive (mResonanceFader ?t')"
        by (simp_all add: settings_kept_def)
      then have "read_faders fader_get aTime' ?t' = ?t'" by (rule read_faders_idle)
      with di show ?thesis by (simp add: recalc_if_dirty_def)
    qed
    from eq co di idle show "filter_inst ar fader_get aBuffer aSamples aStereo aSamplerate aTime t =
               channel_loop ar (if aStereo \<noteq> 0 then 2 else 1) aSamples 0 (?t2, aBuffer) \<and>
             coefficients ?t' = coefficients ?t2 \<and> mDirty ?t' = 0 \<and>
             (\<not> 0 < Fader.mActive (mFrequencyFader t) \<and>
              \<not> 0 < Fader.mActive (mSampleRateFader t) \<and>
              \<not> 0 < Fader.mActive (mResonanceFader t) \<longrightarrow>
                recalc_if_dirty ar (read_faders fader_get aTime' ?t') = ?t')"
      by blast
  qed
  from a b c d e f g h i j show ?thesis
    unfolding Let_def by blast
qed

text \<open>
  Facts about the concrete inputs, in exact arithmetic.
\<close>

lemma exact_ops:
  "fadd exact = (+)" "fsub exact = (-)" "fmul exact = (*)" "fdiv exact = (/)"
  "fneg exact = uminus" "feq exact = (=)" "fle exact = (\<le>)" "fconst exact = of_rat"
  "fsin exact = sin" "fcos exact = cos" "f2d exact = id" "d2f exact = id"
  "dmul exact = (*)" "ddiv exact = (/)" "dconst exact = of_rat" "dpi exact = pi"
  by (simp_all add: exact_def)

lemma zero_storage_fields:
  "mFrequency zero_storage = 0" "coefficients zero_storage = (0, 0, 0, 0, 0)"
  by (simp_all add: zero_storage_def coefficients_def)

lemma idle_fader_inactive: "\<not> 0 < Fader.mActive idle_fader"
  by (simp add: idle_fader_def)

lemma clean_prologue:
  "recalc_if_dirty exact (read_faders ramp_get aTime clean_instance) = clean_instance"
  by (simp add: read_faders_idle recalc_if_dirty_def clean_instance_fields idle_fader_inactive)

lemma default_prologue:
  "recalc_if_dirty exact (read_faders ramp_get aTime default_instance) = clean_instance"
  by (simp add: read_faders_idle recalc_if_dirty_def default_instance_fields idle_fader_inactive
      clean_instance_def)

lemma fading_instance_fields:
  "mFrequencyFader fading_instance =
     \<lparr>Fader.mActive = 1, mFrom = 100, mTo = 2000, mTime = 1, mStartTime = 0\<rparr>"
  "mSampleRateFader fading_instance = idle_fader" "mResonanceFader fading_instance = idle_fader"
  "mActive fading_instance = 1" "mSampleRate fading_instance = 44100"
  "mResonance fading_instance = 2"
  by (simp_all add: fading_instance_def fadeFilterParameter_def ramp_set_def exact_def
      attribute_defs clean_instance_fields)

text \<open>
  Half-way through the ramp from 100 Hz to 2000 Hz the frequency read is 1050 Hz and the
  instance is dirty. The instance created with 11025 Hz is dirty and has no active fader:
  the call computes the coefficients \<open>2/5, 4/5, 2/5, 0, 3/5\<close>, and the next call
  recomputes nothing.
\<close>

theorem filter_fader_update_and_caching_witness:
  "0 < Fader.mActive (mFrequencyFader fading_instance) \<and>
   \<not> 0 < Fader.mActive (mSampleRateFader fading_instance) \<and>
   mFrequency (read_faders ramp_get (1/2) fading_instance) = 1050 \<and>
   mDirty (read_faders ramp_get (1/2) fading_instance) = 1 \<and>
   mSampleRate (read_faders ramp_get (1/2) fading_instance) = 44100 \<and>
   mActive default_instance \<noteq> 0 \<and> mDirty default_instance \<noteq> 0 \<and>
   \<not> 0 < Fader.mActive (mFrequencyFader default_instance) \<and>
   \<not> 0 < Fader.mActive (mSampleRateFader default_instance) \<and>
   \<not> 0 < Fader.mActive (mResonanceFader default_instance) \<and>
   coefficients (fst (filter_inst exact ramp_get impulse_buffer 2 0 44100 0 default_instance))
     = (2/5, 4/5, 2/5, 0, 3/5) \<and>
   recalc_if_dirty exact (read_faders ramp_get 1
       (fst (filter_inst exact ramp_get impulse_buffer 2 0 44100 0 default_instance)))
     = fst (filter_inst exact ramp_get impulse_buffer 2 0 44100 0 default_instance)"
proof -
  let ?F = "fst (filter_inst exact ramp_get impulse_buffer 2 0 44100 0 default_instance)"
  have h1: "0 < Fader.mActive (mFrequencyFader fading_instance)"
    "\<not> 0 < Fader.mActive (mSampleRateFader fading_instance)"
    by (simp_all add: fading_instance_fields idle_fader_inactive)
  have h2: "mActive default_instance \<noteq> 0" "mDirty default_instance \<noteq> 0"
    "\<not> 0 < Fader.mActive (mFrequencyFader default_instance)"
    "\<not> 0 < Fader.mActive (mSampleRateFader default_instance)"
    "\<not> 0 < Fader.mActive (mResonanceFader default_instance)"
    by (simp_all add: default_instance_fields idle_fader_inactive)
  from h1 filter_fader_update_and_caching[where t = fading_instance and fader_get = ramp_get
      and aTime = "1/2" and ar = exact, unfolded Let_def]
  have "mFrequency (read_faders ramp_get (1/2) fading_instance) =
          fst (ramp_get (mFrequencyFader fading_instance) (1/2))"
    "mDirty (read_faders ramp_get (1/2) fading_instance) = 1"
    "mSampleRate (read_faders ramp_get (1/2) fading_instance) = mSampleRate fading_instance"
    by blast+
  then have a: "mFrequency (read_faders ramp_get (1/2) fading_instance) = 1050"
    "mDirty (read_faders ramp_get (1/2) fading_instance) = 1"
    "mSampleRate (read_faders ramp_get (1/2) fading_instance) = 44100"
    by (simp_all add: fading_instance_fields ramp_get_def)
  from h2 filter_fader_update_and_caching[where t = default_instance and fader_get = ramp_get
      and aTime = 0 and ar = exact and aBuffer = impulse_buffer and aSamples = 2
      and aStereo = 0 and aSamplerate = 44100 and aTime' = 1, unfolded Let_def]
  have "coefficients ?F = coefficients (recalc_if_dirty exact (read_faders ramp_get 0 default_instance))"
    "recalc_if_dirty exact (read_faders ramp_get 1 ?F) = ?F"
    by blast+
  then have b: "coefficients ?F = (2/5, 4/5, 2/5, 0, 3/5)"
    "recalc_if_dirty exact (read_faders ramp_get 1 ?F) = ?F"
    by (simp_all add: default_prologue coefficients_def clean_instance_fields)
  from h1 h2 a b show ?thesis by blast
qed

subsection \<open>The invariant of the coefficients\<close>

lemma spec_coefficients_cases:
  "spec_coefficients ar ty sr fr q = Some c \<Longrightarrow> ty = LOWPASS \<or> ty = HIGHPASS \<or> ty = BANDPASS"
  by (simp add: spec_coefficients_def Let_def split: if_splits)

lemma calcBQRParams_spec:
  assumes "spec_coefficients ar (mFilterType t) (mSampleRate t) (mFrequency t) (mResonance t) = Some c"
  shows "coefficients (calcBQRParams ar t) = c"
proof -
  from spec_coefficients_cases[OF assms]
  consider "mFilterType t = LOWPASS" | "mFilterType t = HIGHPASS" | "mFilterType t = BANDPASS"
    by blast
  then show ?thesis
  proof cases
    case 1
    with assms show ?thesis
      by (simp add: spec_coefficients_def spec_omega_def spec_alpha_def spec_scalar_def
          coefficients_def calcBQRParams_def Let_def enum_defs)
  next
    case 2
    with assms show ?thesis
      by (simp add: spec_coefficients_def spec_omega_def spec_alpha_def spec_scalar_def
          coefficients_def calcBQRParams_def Let_def enum_defs)
  next
    case 3
    with assms show ?thesis
      by (simp add: spec_coefficients_def spec_omega_def spec_alpha_def spec_scalar_def
          coefficients_def calcBQRParams_def Let_def enum_defs)
  qed
qed

lemma calcBQRParams_settings:
  "mSampleRate (calcBQRParams ar t) = mSampleRate t"
  "mFrequency (calcBQRParams ar t) = mFrequency t"
  "mResonance (calcBQRParams ar t) = mResonance t"
  "mParent (calcBQRParams ar t) = mParent t"
  by (simp_all add: calcBQRParams_def Let_def)

lemma calcBQRParams_active:
  "mActive (calcBQRParams ar t) = (if mFilterType t = NONE then 0 else 1)"
  by (simp add: calcBQRParams_def Let_def)

lemma calcBQRParams_no_spec:
  "spec_coefficients ar (mFilterType t) (mSampleRate t) (mFrequency t) (mResonance t) = None
   \<Longrightarrow> coefficients (calcBQRParams ar t) = coefficients t"
  by (simp add: spec_coefficients_def coefficients_def calcBQRParams_def Let_def split: if_splits)

lemma consistent_calcBQRParams: "consistent ar (calcBQRParams ar t)"
  by (simp add: consistent_def calcBQRParams_frame calcBQRParams_settings calcBQRParams_spec
      split: option.splits)

lemma consistent_cong:
  assumes "mDirty t' = mDirty t" "coefficients t' = coefficients t"
    "mFilterType t' = mFilterType t" "mSampleRate t' = mSampleRate t"
    "mFrequency t' = mFrequency t" "mResonance t' = mResonance t"
  shows "consistent ar t' = consistent ar t"
  unfolding consistent_def assms ..

lemma consistent_settings_kept:
  assumes "settings_kept t t'" and "consistent ar t"
  shows "consistent ar t'"
proof -
  from assms(1) have "consistent ar t' = consistent ar t"
    by (intro consistent_cong) (simp_all add: settings_kept_def coefficients_def)
  with assms(2) show ?thesis by simp
qed

lemma consistent_dirty: "mDirty t \<noteq> 0 \<Longrightarrow> consistent ar t"
  by (simp add: consistent_def)

lemma setFilterParameter_dirty:
  "aAttributeId = FREQUENCY \<or> aAttributeId = SAMPLERATE \<or> aAttributeId = RESONANCE \<Longrightarrow>
   mDirty (setFilterParameter aAttributeId aValue t) = 1"
  by (auto simp add: setFilterParameter_def Let_def)

lemma setFilterParameter_other:
  "\<not> (aAttributeId = FREQUENCY \<or> aAttributeId = SAMPLERATE \<or> aAttributeId = RESONANCE) \<Longrightarrow>
   setFilterParameter aAttributeId aValue t = t"
  by (simp add: setFilterParameter_def)

lemma consistent_setFilterParameter:
  "consistent ar t \<Longrightarrow> consistent ar (setFilterParameter aAttributeId aValue t)"
  by (cases "aAttributeId = FREQUENCY \<or> aAttributeId = SAMPLERATE \<or> aAttributeId = RESONANCE")
    (simp_all add: setFilterParameter_dirty setFilterParameter_other consistent_dirty)

lemma consistent_fadeFilterParameter:
  "consistent ar (fadeFilterParameter ar fader_set aAttributeId aFrom aTo aTime aStartTime t)
     = consistent ar t"
  by (rule consistent_cong) (simp_all add: fadeFilterParameter_def coefficients_def)

lemma consistent_oscillateFilterParameter:
  "consistent ar (oscillateFilterParameter ar fader_setLFO aAttributeId aFrom aTo aTime aStartTime t)
     = consistent ar t"
  by (rule consistent_cong) (simp_all add: oscillateFilterParameter_def coefficients_def)

lemma consistent_prologue:
  assumes "consistent ar t"
  shows "consistent ar (recalc_if_dirty ar (read_faders fader_get aTime t))"
proof (cases "mDirty (read_faders fader_get aTime t) \<noteq> 0")
  case True
  then show ?thesis by (simp add: recalc_if_dirty_def consistent_calcBQRParams)
next
  case False
  then have "\<not> (0 < Fader.mActive (mFrequencyFader t) \<or> 0 < Fader.mActive (mSampleRateFader t) \<or>
   0 < Fader.mActive (mResonanceFader t))"
    using read_faders_dirty[of t fader_get aTime] by auto
  then have "read_faders fader_get aTime t = t" by (simp add: read_faders_idle)
  with False assms show ?thesis by (simp add: recalc_if_dirty_def)
qed

lemma consistent_filter_inst:
  assumes "consistent ar t"
  shows "consistent ar (fst (filter_inst ar fader_get aBuffer aSamples aStereo aSamplerate aTime t))"
proof (cases "mActive t = 0")
  case True
  with assms show ?thesis by (simp add: filter_inst_def)
next
  case False
  have "settings_kept (recalc_if_dirty ar (read_faders fader_get aTime t))
          (fst (filter_inst ar fader_get aBuffer aSamples aStereo aSamplerate aTime t))"
    unfolding filter_inst_active[OF False]
    using channel_loop_settings[of "(recalc_if_dirty ar (read_faders fader_get aTime t), aBuffer)" ar]
    by simp
  then show ?thesis using consistent_prologue[OF assms] by (rule consistent_settings_kept)
qed

text \<open>
  C6. The invariant \<open>consistent\<close> (whenever the dirty flag is false, the stored
  coefficients are those of section 4.1 for the current type, sample rate, frequency and
  resonance) holds of every new instance and is preserved by \<open>setFilterParameter\<close>,
  \<open>fadeFilterParameter\<close>, \<open>oscillateFilterParameter\<close> and \<open>filter\<close>.
\<close>

theorem consistent_preserved:
  "consistent ar (createInstance ar fader0 raw this_addr this) \<and>
   (consistent ar t \<longrightarrow> consistent ar (setFilterParameter aAttributeId aValue t)) \<and>
   (consistent ar t \<longrightarrow>
      consistent ar (fadeFilterParameter ar fader_set aAttributeId aFrom aTo aTime aStartTime t)) \<and>
   (consistent ar t \<longrightarrow>
      consistent ar
        (oscillateFilterParameter ar fader_setLFO aAttributeId aFrom aTo aTime aStartTime t)) \<and>
   (consistent ar t \<longrightarrow>
      consistent ar
        (fst (filter_inst ar fader_get aBuffer aSamples aStereo aSamplerate aCurrentTime t)))"
proof -
  have a: "consistent ar (createInstance ar fader0 raw this_addr this)"
    by (simp add: createInstance_def new_BiquadResonantFilterInstance_def Let_def
        consistent_calcBQRParams)
  have b: "consistent ar t \<longrightarrow> consistent ar (setFilterParameter aAttributeId aValue t)"
    by (simp add: consistent_setFilterParameter)
  have c: "consistent ar t \<longrightarrow>
      consistent ar (fadeFilterParameter ar fader_set aAttributeId aFrom aTo aTime aStartTime t)"
    by (simp add: consistent_fadeFilterParameter)
  have d: "consistent ar t \<longrightarrow>
      consistent ar
        (oscillateFilterParameter ar fader_setLFO aAttributeId aFrom aTo aTime aStartTime t)"
    by (simp add: consistent_oscillateFilterParameter)
  have e: "consistent ar t \<longrightarrow>
      consistent ar
        (fst (filter_inst ar fader_get aBuffer aSamples aStereo aSamplerate aCurrentTime t))"
    by (simp add: consistent_filter_inst)
  from a b c d e show ?thesis by blast
qed

theorem consistent_preserved_witness:
  "consistent exact clean_instance \<and> mDirty clean_instance = 0 \<and>
   consistent exact (createInstance exact idle_fader zero_storage 0 default_template) \<and>
   consistent exact (setFilterParameter RESONANCE 5 clean_instance) \<and>
   consistent exact (fadeFilterParameter exact ramp_set FREQUENCY 100 2000 1 0 clean_instance) \<and>
   consistent exact (oscillateFilterParameter exact lfo_set RESONANCE 1 5 2 0 clean_instance) \<and>
   consistent exact (fst (filter_inst exact ramp_get impulse_buffer 2 0 44100 0 clean_instance)) \<and>
   mDirty (fst (filter_inst exact ramp_get impulse_buffer 2 0 44100 0 clean_instance)) = 0"
proof -
  have c: "consistent exact clean_instance"
    by (simp add: clean_instance_def consistent_calcBQRParams)
  have d: "mDirty (fst (filter_inst exact ramp_get impulse_buffer 2 0 44100 0 clean_instance)) = 0"
    using filter_inst_settings[of clean_instance exact ramp_get 0 impulse_buffer 2 0 44100]
    by (simp add: clean_prologue settings_kept_def clean_instance_fields)
  from c d show ?thesis
    using consistent_preserved[of exact idle_fader zero_storage 0 default_template clean_instance
        RESONANCE 5 ramp_set 100 2000 1 0 lfo_set ramp_get impulse_buffer 2 0 44100 0]
      consistent_preserved[of exact idle_fader zero_storage 0 default_template clean_instance
        FREQUENCY 5 ramp_set 100 2000 1 0 lfo_set ramp_get impulse_buffer 2 0 44100 0]
      consistent_preserved[of exact idle_fader zero_storage 0 default_template clean_instance
        RESONANCE 5 ramp_set 1 5 2 0 lfo_set ramp_get impulse_buffer 2 0 44100 0]
    by (simp add: clean_instance_fields)
qed

subsection \<open>Construction\<close>

text \<open>
  C8. For every template, the new instance has the type, the sample rate and the
  resonance of the template and nothing else of it (a template that differs in its
  frequency gives the same instance); the histories of both channels are zero; the
  frequency is the one found in the storage, which the constructor does not write; and the
  coefficients are computed in the constructor: the dirty flag is clear, the instance is
  active unless the type is NONE, and the coefficients are those of section 4.1 for the
  copied fields and that frequency (for a type without coefficients they are not written).
\<close>

theorem createInstance_fields:
  "let t = createInstance ar fader0 raw this_addr this
   in mFilterType t = BiquadResonantFilter.mFilterType this \<and>
      mSampleRate t = BiquadResonantFilter.mSampleRate this \<and>
      mResonance t = BiquadResonantFilter.mResonance this \<and>
      mX1 t = (fconst ar 0, fconst ar 0) \<and> mX2 t = (fconst ar 0, fconst ar 0) \<and>
      mY1 t = (fconst ar 0, fconst ar 0) \<and> mY2 t = (fconst ar 0, fconst ar 0) \<and>
      mFrequency t = mFrequency raw \<and>
      createInstance ar fader0 raw this_addr (this\<lparr>BiquadResonantFilter.mFrequency := f\<rparr>) = t \<and>
      mDirty t = 0 \<and>
      mActive t = (if BiquadResonantFilter.mFilterType this = NONE then 0 else 1) \<and>
      (case spec_coefficients ar (mFilterType t) (mSampleRate t) (mFrequency raw) (mResonance t) of
         Some c \<Rightarrow> coefficients t = c
       | None \<Rightarrow> coefficients t = coefficients raw)"
proof -
  define t0 where "t0 = raw\<lparr>mFrequencyFader := fader0, mSampleRateFader := fader0,
      mResonanceFader := fader0, mParent := this_addr,
      mX2 := (fconst ar 0, fconst ar 0), mX1 := (fconst ar 0, fconst ar 0),
      mY2 := (fconst ar 0, fconst ar 0), mY1 := (fconst ar 0, fconst ar 0),
      mFilterType := BiquadResonantFilter.mFilterType this,
      mSampleRate := BiquadResonantFilter.mSampleRate this,
      mResonance := BiquadResonantFilter.mResonance this\<rparr>"
  have new: "createInstance ar fader0 raw this_addr p = calcBQRParams ar t0"
    if "BiquadResonantFilter.mFilterType p = BiquadResonantFilter.mFilterType this"
      "BiquadResonantFilter.mSampleRate p = BiquadResonantFilter.mSampleRate this"
      "BiquadResonantFilter.mResonance p = BiquadResonantFilter.mResonance this" for p
    using that
    by (simp add: createInstance_def new_BiquadResonantFilterInstance_def Let_def t0_def
        at2_def put2_def)
  have f: "mFilterType t0 = BiquadResonantFilter.mFilterType this"
    "mSampleRate t0 = BiquadResonantFilter.mSampleRate this"
    "mResonance t0 = BiquadResonantFilter.mResonance this"
    "mFrequency t0 = mFrequency raw" "coefficients t0 = coefficients raw"
    "mX1 t0 = (fconst ar 0, fconst ar 0)" "mX2 t0 = (fconst ar 0, fconst ar 0)"
    "mY1 t0 = (fconst ar 0, fconst ar 0)" "mY2 t0 = (fconst ar 0, fconst ar 0)"
    by (simp_all add: t0_def coefficients_def)
  have sp: "case spec_coefficients ar (mFilterType t0) (mSampleRate t0) (mFrequency t0)
                   (mResonance t0) of
              Some c \<Rightarrow> coefficients (calcBQRParams ar t0) = c
            | None \<Rightarrow> coefficients (calcBQRParams ar t0) = coefficients t0"
    by (simp add: calcBQRParams_spec calcBQRParams_no_spec split: option.splits)
  show ?thesis
    using sp
    by (simp add: Let_def new calcBQRParams_frame calcBQRParams_settings calcBQRParams_active f
        split: option.splits)
qed

lemma default_template_fields:
  "BiquadResonantFilter.mFilterType default_template = LOWPASS"
  "BiquadResonantFilter.mSampleRate default_template = 44100"
  "BiquadResonantFilter.mFrequency default_template = 1000"
  "BiquadResonantFilter.mResonance default_template = 2"
  by (simp_all add: default_template_def new_BiquadResonantFilter_def setParams_def Let_def
      exact_def)

lemma spec_coefficients_zero_frequency:
  "spec_coefficients exact LOWPASS 44100 0 2 = Some (0, 0, 0, - 2, 1)"
  by (simp add: spec_coefficients_def spec_omega_def spec_alpha_def spec_scalar_def Let_def
      exact_ops)

text \<open>
  The instance created from the default template on storage filled with zeros: its
  frequency is the 0 of the storage, not the 1000 Hz of the template, and its coefficients
  are those of frequency 0.
\<close>

theorem createInstance_fields_witness:
  "(let t = createInstance exact idle_fader zero_storage 0 default_template
    in mFilterType t = LOWPASS \<and> mSampleRate t = 44100 \<and> mResonance t = 2 \<and>
       mFrequency t = 0 \<and> mX1 t = (0, 0) \<and> mY1 t = (0, 0) \<and> mDirty t = 0 \<and> mActive t = 1 \<and>
       coefficients t = (0, 0, 0, - 2, 1) \<and>
       createInstance exact idle_fader zero_storage 0
         (default_template\<lparr>BiquadResonantFilter.mFrequency := 500\<rparr>) = t)"
proof -
  let ?C = "createInstance exact idle_fader zero_storage 0 default_template"
  note T = createInstance_fields[of exact idle_fader zero_storage 0 default_template 500,
      unfolded Let_def]
  from T have f: "mFilterType ?C = LOWPASS" "mSampleRate ?C = 44100" "mResonance ?C = 2"
    "mFrequency ?C = 0" "mX1 ?C = (0, 0)" "mY1 ?C = (0, 0)" "mDirty ?C = 0" "mActive ?C = 1"
    by (simp_all add: default_template_fields zero_storage_fields exact_ops enum_defs)
  from T have e: "createInstance exact idle_fader zero_storage 0
         (default_template\<lparr>BiquadResonantFilter.mFrequency := 500\<rparr>) = ?C"
    by blast
  from T have "case spec_coefficients exact (mFilterType ?C) (mSampleRate ?C)
                      (mFrequency zero_storage) (mResonance ?C) of
                 Some c \<Rightarrow> coefficients ?C = c
               | None \<Rightarrow> coefficients ?C = coefficients zero_storage"
    by blast
  then have c: "coefficients ?C = (0, 0, 0, - 2, 1)"
    by (simp add: f zero_storage_fields spec_coefficients_zero_frequency)
  from f e c show ?thesis by (simp add: Let_def)
qed

subsection \<open>The impulse after each channel\<close>

lemma add_impulse_same:
  "at2 (mY1 (add_impulse ar s t)) s = fadd ar (at2 (mY1 t) s) (impulse ar)"
  "at2 (mX1 (add_impulse ar s t)) s = at2 (mX1 t) s"
  "at2 (mX2 (add_impulse ar s t)) s = at2 (mX2 t) s"
  "at2 (mY2 (add_impulse ar s t)) s = at2 (mY2 t) s"
  by (simp_all add: add_impulse_def at2_put2)

lemma filter_inst_mono:
  "mActive t \<noteq> 0 \<Longrightarrow>
   filter_inst ar fader_get aBuffer aSamples 0 aSamplerate aTime t =
     (let tb0 = sample_loop ar 1 0 aSamples 0
                  (recalc_if_dirty ar (read_faders fader_get aTime t), aBuffer)
      in (add_impulse ar 0 (fst tb0), snd tb0))"
  by (simp add: filter_inst_active channel_loop_mono)

lemma filter_inst_stereo:
  "mActive t \<noteq> 0 \<Longrightarrow> aStereo \<noteq> 0 \<Longrightarrow>
   filter_inst ar fader_get aBuffer aSamples aStereo aSamplerate aTime t =
     (let tb0 = sample_loop ar 2 0 aSamples 0
                  (recalc_if_dirty ar (read_faders fader_get aTime t), aBuffer);
          tb1 = sample_loop ar 2 1 aSamples 0 (add_impulse ar 0 (fst tb0), snd tb0)
      in (add_impulse ar 1 (fst tb1), snd tb1))"
  by (simp add: filter_inst_active channel_loop_stereo)

text \<open>
  C9. In a call of \<open>filter\<close> on an active instance, let \<open>tb0\<close> be the instance and the
  buffer at the end of the sample loop of channel 0, and, for a stereo call, \<open>tb1\<close>
  those at the end of the sample loop of channel 1 (which starts from \<open>tb0\<close> with the
  impulse added to channel 0). When the call returns, \<open>mY1[s]\<close> of each processed channel
  \<open>s\<close> is its value at the end of the sample loop of that channel plus the constant
  \<open>1.0e-26\<close>, and \<open>mX1[s]\<close>, \<open>mX2[s]\<close>, \<open>mY2[s]\<close> are as they were at the end of that
  loop. A mono call adds nothing to channel 1.
\<close>

theorem filter_impulse_after_channel:
  assumes "mActive t \<noteq> 0"
  shows "let tp = recalc_if_dirty ar (read_faders fader_get aTime t);
             pitch = (if aStereo \<noteq> 0 then 2 else 1);
             tb0 = sample_loop ar pitch 0 aSamples 0 (tp, aBuffer);
             t0 = (fst tb0)\<lparr>mY1 := put2 (mY1 (fst tb0)) 0
                                   (fadd ar (at2 (mY1 (fst tb0)) 0) (impulse ar))\<rparr>;
             tb1 = sample_loop ar pitch 1 aSamples 0 (t0, snd tb0);
             t' = fst (filter_inst ar fader_get aBuffer aSamples aStereo aSamplerate aTime t)
         in at2 (mY1 t') 0 = fadd ar (at2 (mY1 (fst tb0)) 0) (impulse ar) \<and>
            at2 (mX1 t') 0 = at2 (mX1 (fst tb0)) 0 \<and>
            at2 (mX2 t') 0 = at2 (mX2 (fst tb0)) 0 \<and>
            at2 (mY2 t') 0 = at2 (mY2 (fst tb0)) 0 \<and>
            (aStereo \<noteq> 0 \<longrightarrow>
               at2 (mY1 t') 1 = fadd ar (at2 (mY1 (fst tb1)) 1) (impulse ar) \<and>
               at2 (mX1 t') 1 = at2 (mX1 (fst tb1)) 1 \<and>
               at2 (mX2 t') 1 = at2 (mX2 (fst tb1)) 1 \<and>
               at2 (mY2 t') 1 = at2 (mY2 (fst tb1)) 1) \<and>
            (aStereo = 0 \<longrightarrow> at2 (mY1 t') 1 = at2 (mY1 (fst tb0)) 1)"
proof (cases "aStereo = 0")
  case True
  let ?tp = "recalc_if_dirty ar (read_faders fader_get aTime t)"
  let ?tb0 = "sample_loop ar 1 0 aSamples 0 (?tp, aBuffer)"
  have t': "fst (filter_inst ar fader_get aBuffer aSamples 0 aSamplerate aTime t) =
            add_impulse ar 0 (fst ?tb0)"
    by (simp add: filter_inst_mono[OF assms] Let_def)
  have "channel_kept 1 (fst ?tb0) (add_impulse ar 0 (fst ?tb0))"
    by (rule add_impulse_other) simp
  then show ?thesis
    using True by (simp add: Let_def t' add_impulse_same channel_kept_def)
next
  case False
  let ?tp = "recalc_if_dirty ar (read_faders fader_get aTime t)"
  let ?tb0 = "sample_loop ar 2 0 aSamples 0 (?tp, aBuffer)"
  let ?t0 = "add_impulse ar 0 (fst ?tb0)"
  let ?tb1 = "sample_loop ar 2 1 aSamples 0 (?t0, snd ?tb0)"
  have t': "fst (filter_inst ar fader_get aBuffer aSamples aStereo aSamplerate aTime t) =
            add_impulse ar 1 (fst ?tb1)"
    by (simp add: filter_inst_stereo[OF assms False] Let_def)
  have k1: "channel_kept 0 (fst ?tb1) (add_impulse ar 1 (fst ?tb1))"
    by (rule add_impulse_other) simp
  have k2: "channel_kept 0 ?t0 (fst ?tb1)"
    using sample_loop_other[of 1 0 "(?t0, snd ?tb0)" ar 2 aSamples 0] by simp
  have k: "channel_kept 0 ?t0 (add_impulse ar 1 (fst ?tb1))"
    using k2 k1 by (rule channel_kept_trans)
  have t0: "?t0 = (fst ?tb0)\<lparr>mY1 := put2 (mY1 (fst ?tb0)) 0
                   (fadd ar (at2 (mY1 (fst ?tb0)) 0) (impulse ar))\<rparr>"
    by (simp add: add_impulse_def)
  have ch0: "at2 (mY1 (add_impulse ar 1 (fst ?tb1))) 0 =
               fadd ar (at2 (mY1 (fst ?tb0)) 0) (impulse ar)"
    "at2 (mX1 (add_impulse ar 1 (fst ?tb1))) 0 = at2 (mX1 (fst ?tb0)) 0"
    "at2 (mX2 (add_impulse ar 1 (fst ?tb1))) 0 = at2 (mX2 (fst ?tb0)) 0"
    "at2 (mY2 (add_impulse ar 1 (fst ?tb1))) 0 = at2 (mY2 (fst ?tb0)) 0"
    using k by (simp_all add: channel_kept_def add_impulse_same)
  show ?thesis
    using False by (simp add: Let_def t' ch0 add_impulse_same t0[symmetric])
qed

text \<open>
  The unit impulse through the instance with coefficients \<open>2/5, 4/5, 2/5, 0, 3/5\<close>, two
  samples per channel, mono and stereo (where channel 1 of the buffer is silent).
\<close>

lemma clean_mono_loop:
  "sample_loop exact 1 0 2 0 (clean_instance, impulse_buffer) =
     (clean_instance\<lparr>mX1 := (0, 0), mX2 := (1, 0), mY1 := (4/5, 0), mY2 := (2/5, 0)\<rparr>,
      impulse_buffer(0 := 2/5, 1 := 4/5))"
  apply (rule prod_eqI)
   apply (rule BiquadResonantFilterInstance.equality)
  by (simp_all add: sample_loop.simps sample_pair_def Let_def clean_instance_fields
      impulse_buffer_def exact_ops at2_def put2_def fun_eq_iff)

lemma clean_instance_active: "mActive clean_instance \<noteq> 0"
  by (simp add: clean_instance_fields)

lemma clean_mono_filter:
  "filter_inst exact ramp_get impulse_buffer 2 0 44100 aTime clean_instance =
     (add_impulse exact 0
        (clean_instance\<lparr>mX1 := (0, 0), mX2 := (1, 0), mY1 := (4/5, 0), mY2 := (2/5, 0)\<rparr>),
      impulse_buffer(0 := 2/5, 1 := 4/5))"
  by (simp add: filter_inst_mono[OF clean_instance_active] clean_prologue clean_mono_loop)

lemma clean_stereo_loop:
  "sample_loop exact 2 0 2 0 (clean_instance, impulse_buffer) =
     (clean_instance\<lparr>mX1 := (0, 0), mX2 := (1, 0), mY1 := (4/5, 0), mY2 := (2/5, 0)\<rparr>,
      impulse_buffer(0 := 2/5, 2 := 4/5))"
  apply (rule prod_eqI)
   apply (rule BiquadResonantFilterInstance.equality)
  by (simp_all add: sample_loop.simps sample_pair_def Let_def clean_instance_fields
      impulse_buffer_def exact_ops at2_def put2_def fun_eq_iff)

lemma impulse_exact: "impulse exact = 1 / 10 ^ 26"
  by (simp add: impulse_def exact_ops of_rat_divide of_rat_power)

theorem filter_impulse_after_channel_witness:
  "mActive clean_instance \<noteq> 0 \<and>
   (let t' = fst (filter_inst exact ramp_get impulse_buffer 2 0 44100 0 clean_instance)
    in at2 (mY1 t') 0 = 4/5 + 1 / 10 ^ 26 \<and> at2 (mY2 t') 0 = 2/5 \<and>
       at2 (mX1 t') 0 = 0 \<and> at2 (mX2 t') 0 = 1 \<and> at2 (mY1 t') 1 = 0) \<and>
   (let t' = fst (filter_inst exact ramp_get impulse_buffer 2 1 44100 0 clean_instance)
    in at2 (mY1 t') 0 = 4/5 + 1 / 10 ^ 26 \<and> at2 (mY2 t') 0 = 2/5 \<and>
       at2 (mY1 t') 1 = 1 / 10 ^ 26 \<and> at2 (mY2 t') 1 = 0)"
proof -
  note M = filter_impulse_after_channel[OF clean_instance_active, where ar = exact
      and fader_get = ramp_get and aTime = 0 and aBuffer = impulse_buffer and aSamples = 2
      and aStereo = 0 and aSamplerate = 44100, unfolded Let_def]
  note S = filter_impulse_after_channel[OF clean_instance_active, where ar = exact
      and fader_get = ramp_get and aTime = 0 and aBuffer = impulse_buffer and aSamples = 2
      and aStereo = 1 and aSamplerate = 44100, unfolded Let_def]
  let ?M = "fst (filter_inst exact ramp_get impulse_buffer 2 0 44100 0 clean_instance)"
  let ?S = "fst (filter_inst exact ramp_get impulse_buffer 2 1 44100 0 clean_instance)"
  from M have m: "at2 (mY1 ?M) 0 = 4/5 + 1 / 10 ^ 26" "at2 (mY2 ?M) 0 = 2/5"
    "at2 (mX1 ?M) 0 = 0" "at2 (mX2 ?M) 0 = 1" "at2 (mY1 ?M) 1 = 0"
    by (simp_all add: clean_prologue clean_mono_loop exact_ops impulse_exact at2_def)
  from S have s0: "at2 (mY1 ?S) 0 = 4/5 + 1 / 10 ^ 26" "at2 (mY2 ?S) 0 = 2/5"
    by (simp_all add: clean_prologue clean_stereo_loop exact_ops impulse_exact at2_def)
  from S have s1: "at2 (mY1 ?S) 1 = 1 / 10 ^ 26" "at2 (mY2 ?S) 1 = 0"
    by (simp_all add: clean_prologue clean_stereo_loop exact_ops impulse_exact at2_def put2_def
        sample_loop.simps sample_pair_def Let_def clean_instance_fields impulse_buffer_def)
  from m s0 s1 show ?thesis by (simp add: Let_def clean_instance_active)
qed

subsection \<open>Channel 1 in a mono call\<close>

lemma with_history_fields:
  "mParent (with_history s h t) = mParent t" "mFilterType (with_history s h t) = mFilterType t"
  "mSampleRate (with_history s h t) = mSampleRate t" "mFrequency (with_history s h t) = mFrequency t"
  "mResonance (with_history s h t) = mResonance t" "mActive (with_history s h t) = mActive t"
  "mDirty (with_history s h t) = mDirty t" "mA0 (with_history s h t) = mA0 t"
  "mA1 (with_history s h t) = mA1 t" "mA2 (with_history s h t) = mA2 t"
  "mB1 (with_history s h t) = mB1 t" "mB2 (with_history s h t) = mB2 t"
  "mFrequencyFader (with_history s h t) = mFrequencyFader t"
  "mSampleRateFader (with_history s h t) = mSampleRateFader t"
  "mResonanceFader (with_history s h t) = mResonanceFader t"
  "mX1 (with_history s h t) = put2 (mX1 t) s (fst h)"
  "mX2 (with_history s h t) = put2 (mX2 t) s (fst (snd h))"
  "mY1 (with_history s h t) = put2 (mY1 t) s (fst (snd (snd h)))"
  "mY2 (with_history s h t) = put2 (mY2 t) s (snd (snd (snd h)))"
  by (simp_all add: with_history_def split: prod.splits)

lemma with_history_read_faders:
  "read_faders fader_get aTime (with_history s h t) = with_history s h (read_faders fader_get aTime t)"
  by (rule BiquadResonantFilterInstance.equality)
    (simp_all add: with_history_fields read_faders_def Let_def split: prod.splits)

lemma with_history_calcBQRParams:
  "calcBQRParams ar (with_history s h t) = with_history s h (calcBQRParams ar t)"
  by (rule BiquadResonantFilterInstance.equality)
    (simp_all add: with_history_fields calcBQRParams_def Let_def)

lemma with_history_recalc_if_dirty:
  "recalc_if_dirty ar (with_history s h t) = with_history s h (recalc_if_dirty ar t)"
  by (simp add: recalc_if_dirty_def with_history_fields with_history_calcBQRParams)

lemma with_history_add_impulse:
  "s \<noteq> 0 \<Longrightarrow> add_impulse ar 0 (with_history s h t) = with_history s h (add_impulse ar 0 t)"
  by (rule BiquadResonantFilterInstance.equality)
    (simp_all add: with_history_fields add_impulse_def at2_def put2_def)

lemma with_history_sample_pair:
  "s \<noteq> 0 \<Longrightarrow>
   sample_pair ar pitch 0 i (with_history s h t, b) =
     (with_history s h (fst (sample_pair ar pitch 0 i (t, b))), snd (sample_pair ar pitch 0 i (t, b)))"
  apply (rule prod_eqI)
   apply (rule BiquadResonantFilterInstance.equality)
  by (simp_all add: with_history_fields sample_pair_def Let_def at2_def put2_def)

lemma with_history_sample_loop:
  "s \<noteq> 0 \<Longrightarrow>
   sample_loop ar pitch 0 aSamples i (with_history s h t, b) =
     (with_history s h (fst (sample_loop ar pitch 0 aSamples i (t, b))),
      snd (sample_loop ar pitch 0 aSamples i (t, b)))"
proof (induction ar pitch "0::int" aSamples i "(t, b)" arbitrary: t b rule: sample_loop.induct)
  case (1 ar pitch aSamples i)
  show ?case
  proof (cases "i < aSamples")
    case True
    obtain t1 b1 where r: "sample_pair ar pitch 0 i (t, b) = (t1, b1)"
      by (cases "sample_pair ar pitch 0 i (t, b)")
    have "sample_loop ar pitch 0 aSamples i (with_history s h t, b) =
          sample_loop ar pitch 0 aSamples (i + 2) (with_history s h t1, b1)"
      using True by (subst sample_loop.simps) (simp add: with_history_sample_pair[OF "1.prems"] r)
    also have "\<dots> = (with_history s h (fst (sample_loop ar pitch 0 aSamples (i + 2) (t1, b1))),
                      snd (sample_loop ar pitch 0 aSamples (i + 2) (t1, b1)))"
      using "1.hyps"[OF True r "1.prems"] .
    also have "sample_loop ar pitch 0 aSamples (i + 2) (t1, b1) =
               sample_loop ar pitch 0 aSamples i (t, b)"
      using True by (subst (2) sample_loop.simps) (simp add: r)
    finally show ?thesis .
  next
    case False
    then show ?thesis by (simp add: sample_loop.simps)
  qed
qed

lemma with_history_filter_inst:
  "s \<noteq> 0 \<Longrightarrow>
   filter_inst ar fader_get aBuffer aSamples 0 aSamplerate aTime (with_history s h t) =
     (with_history s h (fst (filter_inst ar fader_get aBuffer aSamples 0 aSamplerate aTime t)),
      snd (filter_inst ar fader_get aBuffer aSamples 0 aSamplerate aTime t))"
proof (cases "mActive t = 0")
  case True
  then show ?thesis by (simp add: filter_inst_def with_history_fields)
next
  case False
  then have a: "mActive (with_history s h t) \<noteq> 0" by (simp add: with_history_fields)
  assume s: "s \<noteq> 0"
  show ?thesis
    by (simp add: filter_inst_mono[OF False] filter_inst_mono[OF a] Let_def
        with_history_read_faders with_history_recalc_if_dirty with_history_sample_loop[OF s]
        with_history_add_impulse[OF s])
qed

lemma filter_inst_type:
  "mFilterType (fst (filter_inst ar fader_get aBuffer aSamples aStereo aSamplerate aTime t))
     = mFilterType t"
proof (cases "mActive t = 0")
  case True
  then show ?thesis by (simp add: filter_inst_def)
next
  case False
  from filter_inst_settings[OF False, of ar fader_get aTime aBuffer aSamples aStereo aSamplerate]
  show ?thesis
    by (simp add: settings_kept_def recalc_if_dirty_def calcBQRParams_frame read_faders_frame)
qed

lemma filter_inst_mono_channel1:
  "channel_kept 1 t (fst (filter_inst ar fader_get aBuffer aSamples 0 aSamplerate aTime t))"
proof (cases "mActive t = 0")
  case True
  then show ?thesis by (simp add: filter_inst_def channel_kept_refl)
next
  case False
  let ?tp = "recalc_if_dirty ar (read_faders fader_get aTime t)"
  let ?tb0 = "sample_loop ar 1 0 aSamples 0 (?tp, aBuffer)"
  have a: "channel_kept 1 t ?tp"
    by (simp add: channel_kept_def recalc_if_dirty_def calcBQRParams_frame read_faders_frame)
  have b: "channel_kept 1 ?tp (fst ?tb0)"
    using sample_loop_other[of 0 1 "(?tp, aBuffer)" ar 1 aSamples 0] by simp
  have c: "channel_kept 1 (fst ?tb0) (add_impulse ar 0 (fst ?tb0))"
    by (rule add_impulse_other) simp
  from channel_kept_trans[OF channel_kept_trans[OF a b] c]
  show ?thesis by (simp add: filter_inst_mono[OF False] Let_def)
qed

text \<open>
  C10. A call of \<open>filter\<close> with \<open>aStereo\<close> false leaves \<open>mX1[1]\<close>, \<open>mX2[1]\<close>, \<open>mY1[1]\<close>
  and \<open>mY2[1]\<close> as they were, and it does not read them either: with any other history
  \<open>h\<close> stored for channel 1 the call returns the same buffer and the same instance, with
  \<open>h\<close> still in place. No call of \<open>filter\<close>, with any arguments, changes the filter type.
\<close>

theorem filter_mono_keeps_channel1:
  "(aStereo = 0 \<longrightarrow>
      (let t' = fst (filter_inst ar fader_get aBuffer aSamples aStereo aSamplerate aTime t)
       in at2 (mX1 t') 1 = at2 (mX1 t) 1 \<and> at2 (mX2 t') 1 = at2 (mX2 t) 1 \<and>
          at2 (mY1 t') 1 = at2 (mY1 t) 1 \<and> at2 (mY2 t') 1 = at2 (mY2 t) 1) \<and>
      filter_inst ar fader_get aBuffer aSamples aStereo aSamplerate aTime (with_history 1 h t) =
        (with_history 1 h
           (fst (filter_inst ar fader_get aBuffer aSamples aStereo aSamplerate aTime t)),
         snd (filter_inst ar fader_get aBuffer aSamples aStereo aSamplerate aTime t))) \<and>
   mFilterType (fst (filter_inst ar fader_get aBuffer aSamples aStereo aSamplerate aTime t))
     = mFilterType t"
  using filter_inst_mono_channel1[of t ar fader_get aBuffer aSamples aSamplerate aTime]
    with_history_filter_inst[of 1 ar fader_get aBuffer aSamples aSamplerate aTime h t]
  by (simp add: filter_inst_type channel_kept_def Let_def)

text \<open>
  A mono call on the instance with zero history, and on the same instance with the
  history \<open>(1, 2, 3, 4)\<close> stored for channel 1: the outputs are the same and the stored
  history is still there.
\<close>

theorem filter_mono_keeps_channel1_witness:
  "(0::int) = 0 \<and>
   (let t' = fst (filter_inst exact ramp_get impulse_buffer 2 0 44100 0 clean_instance)
    in at2 (mX1 t') 1 = 0 \<and> at2 (mX2 t') 1 = 0 \<and> at2 (mY1 t') 1 = 0 \<and> at2 (mY2 t') 1 = 0 \<and>
       mFilterType t' = LOWPASS) \<and>
   (let r = filter_inst exact ramp_get impulse_buffer 2 0 44100 0
              (with_history 1 (1, 2, 3, 4) clean_instance)
    in at2 (mX1 (fst r)) 1 = 1 \<and> at2 (mX2 (fst r)) 1 = 2 \<and> at2 (mY1 (fst r)) 1 = 3 \<and>
       at2 (mY2 (fst r)) 1 = 4 \<and> at2 (mY2 (fst r)) 0 = 2/5 \<and> snd r 0 = 2/5 \<and> snd r 1 = 4/5)"
proof -
  let ?F = "filter_inst exact ramp_get impulse_buffer 2 0 44100 0 clean_instance"
  let ?G = "filter_inst exact ramp_get impulse_buffer 2 0 44100 0
              (with_history 1 (1, 2, 3, 4) clean_instance)"
  note T = filter_mono_keeps_channel1[where aStereo = 0 and ar = exact and fader_get = ramp_get
      and aBuffer = impulse_buffer and aSamples = 2 and aSamplerate = 44100 and aTime = 0
      and t = clean_instance and h = "(1, 2, 3, 4)", unfolded Let_def]
  from T have k: "at2 (mX1 (fst ?F)) 1 = at2 (mX1 clean_instance) 1"
    "at2 (mX2 (fst ?F)) 1 = at2 (mX2 clean_instance) 1"
    "at2 (mY1 (fst ?F)) 1 = at2 (mY1 clean_instance) 1"
    "at2 (mY2 (fst ?F)) 1 = at2 (mY2 clean_instance) 1"
    "mFilterType (fst ?F) = mFilterType clean_instance"
    "?G = (with_history 1 (1, 2, 3, 4) (fst ?F), snd ?F)"
    by blast+
  from k(1-5) have a: "at2 (mX1 (fst ?F)) 1 = 0" "at2 (mX2 (fst ?F)) 1 = 0"
    "at2 (mY1 (fst ?F)) 1 = 0" "at2 (mY2 (fst ?F)) 1 = 0" "mFilterType (fst ?F) = LOWPASS"
    by (simp_all add: clean_instance_fields at2_def)
  have b: "at2 (mX1 (fst ?G)) 1 = 1" "at2 (mX2 (fst ?G)) 1 = 2" "at2 (mY1 (fst ?G)) 1 = 3"
    "at2 (mY2 (fst ?G)) 1 = 4" "at2 (mY2 (fst ?G)) 0 = 2/5" "snd ?G 0 = 2/5" "snd ?G 1 = 4/5"
    unfolding k(6)
    by (simp_all add: with_history_fields clean_mono_filter add_impulse_def at2_def put2_def)
  from a b show ?thesis by (simp add: Let_def)
qed

end
